theory Spec2Isabelle
  imports Main "HOL-Library.Word"
begin

unbundle bit_operations_syntax

section \<open>gauthctl: the state-file lifecycle of src/gauthctl.c\<close>

text \<open>
  The program is sequential C over POSIX system calls. Its functions are embedded as
  HOL functions that take the state of the outside world and return the new one.
  The world holds what the system calls of the program read and change: a flat file
  system, the stream behind descriptor 3, the umask, errno, the two output streams,
  the identity of the process and the results of the library calls the program cannot
  influence (malloc, PAM).
  Strings are C strings: a HOL string stands for the bytes before the terminating NUL.
\<close>

subsection \<open>The world\<close>

type_synonym byte = "8 word"
type_synonym path = string
type_synonym mode_t = "32 word"
type_synonym uid_t = nat

datatype errno_t = ENOENT | EACCES | EEXIST | EISDIR | ENOSPC | EIO | EBADF | EFAULT | ENOMEM

datatype kind = Reg | Dir

record inode =
  i_kind :: kind
  i_data :: "byte list"
  i_mode :: mode_t
  i_owner :: uid_t

text \<open>
  What one \<^verbatim>\<open>read(3, buf, n)\<close> finds: bytes that are ready (a short read when fewer
  than \<open>n\<close>), or an error. The end of the list is the end of the stream.
\<close>

datatype rd_event = Data "byte list" | RdErr

text \<open>
  A line written to a stream. \<open>Perror s e\<close> is what \<^verbatim>\<open>perror(s)\<close> prints while errno
  is \<open>e\<close>; \<open>PamErr s r\<close> is a message that ends in \<^verbatim>\<open>pam_strerror(h, r)\<close>.
\<close>

datatype line = Text string | Perror string errno_t | PamErr string int

record pam_results =
  pam_start_ret :: int
  pam_authenticate_ret :: int
  pam_acct_mgmt_ret :: int
  pam_end_ret :: int

record world =
  fs :: "path \<rightharpoonup> inode"
  dir_writable :: bool
  space :: nat
  fds :: "int \<rightharpoonup> path"
  fd3 :: "rd_event list"
  umask :: mode_t
  errno :: errno_t
  stdout :: "line list"
  stderr :: "line list"
  ruid :: uid_t
  euid :: uid_t
  passwd :: "uid_t \<rightharpoonup> string"
  mallocs :: "bool list"
  pam :: pam_results

text \<open>
  \<^item> \<open>fs\<close>: the file at each path, if any. Paths are compared as strings.
  \<^item> \<open>dir_writable\<close>: whether the process may add and remove directory entries.
  \<^item> \<open>space\<close>: how many more bytes the device accepts. A \<^verbatim>\<open>write\<close> of more than
    that is a short write, and a \<^verbatim>\<open>write\<close> when nothing is left fails with ENOSPC.
  \<^item> \<open>fds\<close>: the files the process has opened itself, by descriptor.
  \<^item> \<open>fd3\<close>: what the successive reads of descriptor 3 will find.
  \<^item> \<open>ruid\<close>, \<open>euid\<close>: \<^verbatim>\<open>getuid()\<close>, and the identity the kernel checks access with.
  \<^item> \<open>passwd\<close>: the password database, by user id.
  \<^item> \<open>mallocs\<close>: whether the successive calls of \<^verbatim>\<open>malloc\<close> succeed; after the
    end of the list every call does.
  \<^item> \<open>pam\<close>: what the four PAM calls of \<open>authenticate\<close> return.
\<close>

text \<open>Compile-time constants of the build (\<^verbatim>\<open>-DGAUTH_STATEDIR=...\<close>, \<^verbatim>\<open>-DVERSION=...\<close>).\<close>

record config =
  GAUTH_STATEDIR :: string
  VERSION :: string

subsection \<open>System and library calls\<close>

definition perror :: "string \<Rightarrow> world \<Rightarrow> world" where
  "perror s w = w\<lparr>stderr := stderr w @ [Perror s (errno w)]\<rparr>"

definition fputs_stderr :: "string \<Rightarrow> world \<Rightarrow> world" where
  "fputs_stderr s w = w\<lparr>stderr := stderr w @ [Text s]\<rparr>"

definition fputs_stdout :: "string \<Rightarrow> world \<Rightarrow> world" where
  "fputs_stdout s w = w\<lparr>stdout := stdout w @ [Text s]\<rparr>"

definition c_malloc :: "world \<Rightarrow> bool \<times> world" where
  "c_malloc w =
     (case mallocs w of
        [] \<Rightarrow> (True, w)
      | b # bs \<Rightarrow> (b, (if b then w else w\<lparr>errno := ENOMEM\<rparr>)\<lparr>mallocs := bs\<rparr>))"

text \<open>
  \<^verbatim>\<open>unlink(path)\<close>: 0, or -1 with errno set. A missing file is ENOENT, a directory
  that may not be changed is EACCES, and a directory cannot be unlinked (EISDIR).
\<close>

definition c_unlink :: "path \<Rightarrow> world \<Rightarrow> int \<times> world" where
  "c_unlink p w =
     (case fs w p of
        None \<Rightarrow> (-1, w\<lparr>errno := ENOENT\<rparr>)
      | Some f \<Rightarrow>
          if \<not> dir_writable w then (-1, w\<lparr>errno := EACCES\<rparr>)
          else if i_kind f = Dir then (-1, w\<lparr>errno := EISDIR\<rparr>)
          else (0, w\<lparr>fs := (fs w)(p := None)\<rparr>))"

text \<open>
  \<^verbatim>\<open>open(path, O_WRONLY|O_CREAT|O_EXCL, mode)\<close>: the new descriptor, or -1. The file
  must not exist (EEXIST). It is created empty, owned by the effective user, with the
  bits of \<open>mode\<close> that the umask leaves. Descriptors 0 to 3 are taken; the program has
  one file of its own open at a time, which gets descriptor 4.
\<close>

definition c_open_creat_excl :: "path \<Rightarrow> mode_t \<Rightarrow> world \<Rightarrow> int \<times> world" where
  "c_open_creat_excl p m w =
     (case fs w p of
        Some f \<Rightarrow> (-1, w\<lparr>errno := EEXIST\<rparr>)
      | None \<Rightarrow>
          if \<not> dir_writable w then (-1, w\<lparr>errno := EACCES\<rparr>)
          else (4, w\<lparr>fs := (fs w)(p \<mapsto>
                        \<lparr>i_kind = Reg, i_data = [], i_mode = m AND NOT (umask w),
                         i_owner = euid w\<rparr>),
                      fds := (fds w)(4 \<mapsto> p)\<rparr>))"

text \<open>
  \<^verbatim>\<open>read(fd, buf, n)\<close>: the count (0 at the end of the stream, -1 on error) and the
  bytes now in the buffer. Descriptor 3 is the only one the model can read from.
\<close>

definition c_read :: "int \<Rightarrow> nat \<Rightarrow> world \<Rightarrow> int \<times> byte list \<times> world" where
  "c_read fd n w =
     (if fd \<noteq> 3 then (-1, [], w\<lparr>errno := EBADF\<rparr>)
      else case fd3 w of
        [] \<Rightarrow> (0, [], w)
      | RdErr # es \<Rightarrow> (-1, [], w\<lparr>fd3 := es, errno := EIO\<rparr>)
      | Data bs # es \<Rightarrow>
          if length bs \<le> n then (int (length bs), bs, w\<lparr>fd3 := es\<rparr>)
          else (int n, take n bs, w\<lparr>fd3 := Data (drop n bs) # es\<rparr>))"

text \<open>
  \<^verbatim>\<open>write(fd, buf, count)\<close> with \<open>buf\<close> the \<open>count\<close> bytes to write: the number of bytes
  written, appended to the file, or -1. As write(2) says, the number may be less than
  \<open>count\<close> when the device has not enough room.
\<close>

definition c_write :: "int \<Rightarrow> byte list \<Rightarrow> world \<Rightarrow> int \<times> world" where
  "c_write fd buf w =
     (case fds w fd of
        None \<Rightarrow> (-1, w\<lparr>errno := EBADF\<rparr>)
      | Some p \<Rightarrow>
          (case fs w p of
             None \<Rightarrow> (-1, w\<lparr>errno := EBADF\<rparr>)
           | Some f \<Rightarrow>
               if buf = [] then (0, w)
               else if space w = 0 then (-1, w\<lparr>errno := ENOSPC\<rparr>)
               else let k = min (length buf) (space w) in
                 (int k, w\<lparr>fs := (fs w)(p \<mapsto> f\<lparr>i_data := i_data f @ take k buf\<rparr>),
                           space := space w - k\<rparr>)))"

definition c_close :: "int \<Rightarrow> world \<Rightarrow> world" where
  "c_close fd w = w\<lparr>fds := (fds w)(fd := None)\<rparr>"

text \<open>
  \<^verbatim>\<open>rename(old, new)\<close>: 0, or -1. A file cannot replace a directory (EISDIR). On
  success \<open>new\<close> is the file that was at \<open>old\<close>, and \<open>old\<close> is gone.
\<close>

definition c_rename :: "path \<Rightarrow> path \<Rightarrow> world \<Rightarrow> int \<times> world" where
  "c_rename old new w =
     (case fs w old of
        None \<Rightarrow> (-1, w\<lparr>errno := ENOENT\<rparr>)
      | Some f \<Rightarrow>
          if \<not> dir_writable w then (-1, w\<lparr>errno := EACCES\<rparr>)
          else if (case fs w new of Some g \<Rightarrow> i_kind g = Dir | None \<Rightarrow> False)
          then (-1, w\<lparr>errno := EISDIR\<rparr>)
          else (0, w\<lparr>fs := (fs w)(old := None, new \<mapsto> f)\<rparr>))"

text \<open>
  Whether the kernel lets the process open a file for reading: the superuser always,
  the owner by bit 0400, anyone else by bit 0004 (groups are not modelled).
\<close>

definition may_read :: "uid_t \<Rightarrow> inode \<Rightarrow> bool" where
  "may_read u f =
     (u = 0 \<or> (if i_owner f = u then i_mode f AND 256 \<noteq> 0 else i_mode f AND 4 \<noteq> 0))"

text \<open>
  \<^verbatim>\<open>fopen(path, "r")\<close> followed by \<^verbatim>\<open>fclose\<close>: whether the stream could be opened.
  Opening for reading does not ask what kind of file it is: a directory opens too (only
  reading from it would fail).
\<close>

definition c_fopen_r :: "path \<Rightarrow> world \<Rightarrow> bool \<times> world" where
  "c_fopen_r p w =
     (case fs w p of
        None \<Rightarrow> (False, w\<lparr>errno := ENOENT\<rparr>)
      | Some f \<Rightarrow> if may_read (euid w) f then (True, w) else (False, w\<lparr>errno := EACCES\<rparr>))"

definition c_umask :: "mode_t \<Rightarrow> world \<Rightarrow> world" where
  "c_umask m w = w\<lparr>umask := m\<rparr>"

subsection \<open>The program\<close>

datatype command = CMD_NULL | CMD_ENABLE | CMD_DISABLE | CMD_STATUS | CMD_NEXT

text \<open>\<^verbatim>\<open>usage(prog_name, help)\<close>: the exit status, and the text on stdout or stderr.\<close>

definition usage :: "string \<Rightarrow> bool \<Rightarrow> world \<Rightarrow> int \<times> world" where
  "usage prog_name help w =
     (let ls =
        [Text (''Usage: '' @ prog_name @ '' --enable\<newline>'')] @
        (if help then [Text ''            Enable gauth using config supplied on fd 3\<newline>''] else []) @
        [Text (''       '' @ prog_name @ '' --disable username\<newline>'')] @
        (if help then [Text ''            Disable gauth for given user\<newline>''] else []) @
        [Text (''       '' @ prog_name @ '' --status\<newline>'')] @
        (if help then [Text ''            Checks status of gauth for the user\<newline>''] else [])
      in if help then (0, w\<lparr>stdout := stdout w @ ls\<rparr>)
         else (1, w\<lparr>stderr := stderr w @ ls\<rparr>))"

text \<open>\<^verbatim>\<open>get_user()\<close>: the name of the real user, \<open>None\<close> for NULL.\<close>

definition get_user :: "world \<Rightarrow> string option" where
  "get_user w = passwd w (ruid w)"

text \<open>
  \<^verbatim>\<open>authenticate(username)\<close>. The result of \<^verbatim>\<open>pam_authenticate\<close> is assigned to
  \<open>ret\<close> and \<open>ret\<close> is assigned \<^verbatim>\<open>PAM_SUCCESS\<close> (0) on the next line, before it is tested.
\<close>

definition PAM_SUCCESS :: int where
  "PAM_SUCCESS = 0"

definition authenticate :: "string \<Rightarrow> world \<Rightarrow> bool \<times> world" where
  "authenticate username w =
     (let ret = pam_start_ret (pam w) in
      if ret \<noteq> PAM_SUCCESS
      then (False, w\<lparr>stderr := stderr w @ [PamErr ''Unable to start PAM conversation: '' ret]\<rparr>)
      else
        let ret = pam_authenticate_ret (pam w);
            ret = PAM_SUCCESS in
        if ret \<noteq> PAM_SUCCESS
        then (False, w\<lparr>stderr := stderr w @ [PamErr ''Authentication failed: '' ret]\<rparr>)
        else
          let ret = pam_acct_mgmt_ret (pam w) in
          if ret \<noteq> PAM_SUCCESS
          then (False, w\<lparr>stderr := stderr w @ [PamErr ''Account unavailable: '' ret]\<rparr>)
          else
            let ret = pam_end_ret (pam w) in
            if ret \<noteq> PAM_SUCCESS
            then (False, w\<lparr>stderr := stderr w @ [PamErr ''Unable to finish PAM conversation: '' ret]\<rparr>)
            else (True, w))"

text \<open>
  \<^verbatim>\<open>get_state_path(username)\<close>: the allocated path, \<open>None\<close> for NULL. The buffer has
  room for the whole path, and \<^verbatim>\<open>snprintf\<close> of two strings does not fail.
\<close>

definition get_state_path :: "config \<Rightarrow> string \<Rightarrow> world \<Rightarrow> path option \<times> world" where
  "get_state_path cfg username w =
     (case c_malloc w of
        (False, w') \<Rightarrow> (None, w')
      | (True, w') \<Rightarrow> (Some (GAUTH_STATEDIR cfg @ ''/'' @ username), w'))"

text \<open>
  The copy loop of \<open>enable\<close>. \<open>True\<close>: the loop ended by \<^verbatim>\<open>break\<close>. \<open>False\<close>:
  \<open>enable\<close> returned false from inside the loop, after its cleanup.
\<close>

fun script_size :: "rd_event list \<Rightarrow> nat" where
  "script_size [] = 0"
| "script_size (Data bs # es) = Suc (length bs + script_size es)"
| "script_size (RdErr # es) = Suc (script_size es)"

function copy_loop :: "int \<Rightarrow> int \<Rightarrow> path \<Rightarrow> world \<Rightarrow> bool \<times> world" where
  "copy_loop in_fd out_fd tmp_buf w =
     (case c_read in_fd 4096 w of (rd, buf, w1) \<Rightarrow>
        if rd = 0 then (True, w1)
        else if rd = -1 then
          (let w2 = perror ''Reading config file failed'' w1;
               w3 = c_close out_fd w2;
               w4 = snd (c_unlink tmp_buf w3)
           in (False, w4))
        else
          (case c_write out_fd (take (nat rd) buf) w1 of (wr, w2) \<Rightarrow>
             if wr = -1 then
               (let w3 = perror ''Writing temporary file failed'' w2;
                    w4 = c_close out_fd w3;
                    w5 = snd (c_unlink tmp_buf w4)
                in (False, w5))
             else copy_loop in_fd out_fd tmp_buf w2))"
  by pat_completeness auto
termination
  apply (relation "measure (\<lambda>(in_fd, out_fd, tmp_buf, w). script_size (fd3 w))")
   apply simp
  apply (auto simp: c_read_def c_write_def Let_def
              split: if_splits list.splits rd_event.splits option.splits)
  done

text \<open>
  \<^verbatim>\<open>enable(state_path, in_fd)\<close>. As in \<open>get_state_path\<close>, the buffer has room for
  the name of the temporary file and \<^verbatim>\<open>snprintf\<close> does not fail. The result of
  \<^verbatim>\<open>close\<close> and of the \<^verbatim>\<open>unlink\<close> calls on the error paths is not looked at.
\<close>

definition enable :: "path \<Rightarrow> int \<Rightarrow> world \<Rightarrow> bool \<times> world" where
  "enable state_path in_fd w =
     (case c_malloc w of
        (False, w1) \<Rightarrow> (False, perror ''Memory allocation failed'' w1)
      | (True, w1) \<Rightarrow>
          let tmp_buf = state_path @ ''.new'' in
          (case c_unlink tmp_buf w1 of (ret, w2) \<Rightarrow>
             if ret \<noteq> 0 \<and> errno w2 \<noteq> ENOENT
             then (False, perror ''Unable to pre-unlink temporary file'' w2)
             else
               (case c_open_creat_excl tmp_buf 384 w2 of (out_fd, w3) \<Rightarrow>
                  if out_fd = -1
                  then (False, perror ''Unable to open temporary file for writing'' w3)
                  else
                    (case copy_loop in_fd out_fd tmp_buf w3 of
                       (False, w4) \<Rightarrow> (False, w4)
                     | (True, w4) \<Rightarrow>
                         let w5 = c_close out_fd w4 in
                         (case c_rename tmp_buf state_path w5 of (ret, w6) \<Rightarrow>
                            if ret \<noteq> 0
                            then (let w7 = perror ''Replacing state file failed'' w6;
                                      w8 = snd (c_unlink tmp_buf w7)
                                  in (False, w8))
                            else (True, fputs_stderr ''GAuth set up successfully\<newline>'' w6))))))"

text \<open>
  The part of \<open>enable\<close> from the \<^verbatim>\<open>open\<close> of the temporary file to the end (lines 198
  to 250 of the source), as a function of the world in which the \<^verbatim>\<open>open\<close> is made.
  \<open>enable\<close> runs it in the world its first \<^verbatim>\<open>unlink\<close> leaves (lemma
  \<open>enable_from_open\<close>); a world in which another process has created the temporary file
  in the meantime is one of its arguments.
\<close>

definition enable_write :: "path \<Rightarrow> path \<Rightarrow> int \<Rightarrow> world \<Rightarrow> bool \<times> world" where
  "enable_write state_path tmp_buf in_fd w2 =
     (case c_open_creat_excl tmp_buf 384 w2 of (out_fd, w3) \<Rightarrow>
        if out_fd = -1
        then (False, perror ''Unable to open temporary file for writing'' w3)
        else
          (case copy_loop in_fd out_fd tmp_buf w3 of
             (False, w4) \<Rightarrow> (False, w4)
           | (True, w4) \<Rightarrow>
               let w5 = c_close out_fd w4 in
               (case c_rename tmp_buf state_path w5 of (ret, w6) \<Rightarrow>
                  if ret \<noteq> 0
                  then (let w7 = perror ''Replacing state file failed'' w6;
                            w8 = snd (c_unlink tmp_buf w7)
                        in (False, w8))
                  else (True, fputs_stderr ''GAuth set up successfully\<newline>'' w6))))"

text \<open>
  \<^verbatim>\<open>disable(state_path)\<close>. The caller in \<open>main\<close> passes what \<open>get_state_path\<close>
  returned without a test, so the path may be NULL (\<open>None\<close>); \<^verbatim>\<open>unlink(NULL)\<close> fails
  with EFAULT.
\<close>

definition disable :: "path option \<Rightarrow> world \<Rightarrow> bool \<times> world" where
  "disable state_path w =
     (case (case state_path of
              None \<Rightarrow> (-1, w\<lparr>errno := EFAULT\<rparr>)
            | Some p \<Rightarrow> c_unlink p w) of (ret, w1) \<Rightarrow>
        if ret = 0 \<or> errno w1 = ENOENT
        then (True, fputs_stderr ''GAuth disabled successfully\<newline>'' w1)
        else (False, perror ''Unable to remove state file'' w1))"

text \<open>\<^verbatim>\<open>status(filename)\<close>: C's \<^verbatim>\<open>true\<close> or \<^verbatim>\<open>false\<close>, returned as int.\<close>

definition status :: "path \<Rightarrow> world \<Rightarrow> bool \<times> world" where
  "status filename w =
     (let w1 = fputs_stdout (''Check existance of '' @ filename @ '' \<newline>'') w
      in c_fopen_r filename w1)"

text \<open>
  What \<open>main\<close> is started with. \<open>opts\<close> are the successive results of
  \<^verbatim>\<open>getopt_long\<close> before it returns -1, each with the value of \<^verbatim>\<open>optarg\<close> at that
  moment (\<open>main\<close> reads it only for \<^verbatim>\<open>'d'\<close>, whose argument is required); \<open>optind\<close>
  is its value after the scan. \<open>ret_init\<close> is the value the local \<^verbatim>\<open>bool ret\<close>
  happens to hold: it is declared without an initialiser.
\<close>

record invocation =
  argv0 :: string
  argc :: nat
  opts :: "(char \<times> string) list"
  optind :: nat
  ret_init :: bool

text \<open>
  The option loop of \<open>main\<close>. \<open>Inl\<close>: \<open>main\<close> returned from inside the loop. \<open>Inr\<close>:
  the loop ended, with \<open>cmd\<close> and \<open>givenuser\<close> as they are then. \<open>givenuser\<close> has
  no initialiser either; it is read only when \<open>cmd\<close> is \<open>CMD_DISABLE\<close>, which is
  assigned together with it, so the value the loop starts with (here the empty string)
  is never looked at.
\<close>

fun parse_opts ::
  "config \<Rightarrow> string \<Rightarrow> (char \<times> string) list \<Rightarrow> command \<Rightarrow> string \<Rightarrow> world
   \<Rightarrow> (int \<times> world) + (command \<times> string \<times> world)" where
  "parse_opts cfg prog [] cmd givenuser w = Inr (cmd, givenuser, w)"
| "parse_opts cfg prog ((opt, optarg) # rest) cmd givenuser w =
     (if opt = CHR ''e'' then parse_opts cfg prog rest CMD_ENABLE givenuser w
      else if opt = CHR ''d'' then parse_opts cfg prog rest CMD_DISABLE optarg w
      else if opt = CHR ''s'' then parse_opts cfg prog rest CMD_STATUS givenuser w
      else if opt = CHR ''h'' then Inl (usage prog True w)
      else if opt = CHR ''V'' then Inl (0, fputs_stdout (''gauthctl '' @ VERSION cfg @ ''\<newline>'') w)
      else if opt = CHR '':'' then
        parse_opts cfg prog rest cmd givenuser (fputs_stderr ''missing argument.\<newline>'' w)
      else Inl (usage prog False w))"

definition exit_status :: "bool \<Rightarrow> int" where
  "exit_status ret = (if ret then 0 else 1)"

text \<open>
  \<open>main\<close>. The call of \<open>authenticate\<close> is commented out in the source. \<open>ret\<close> is
  assigned where \<open>enable\<close>, \<open>disable\<close> or \<open>status\<close> is called for the command, and
  nowhere else; \<open>exit_status\<close> is the final \<^verbatim>\<open>return ret ? 0 : 1\<close>. The two
  \<^verbatim>\<open>assert(not_reached)\<close> cases abort the process (status 134 in the shell).
\<close>

definition main :: "config \<Rightarrow> invocation \<Rightarrow> world \<Rightarrow> int \<times> world" where
  "main cfg iv w =
     (case parse_opts cfg (argv0 iv) (opts iv) CMD_NULL [] w of
        Inl r \<Rightarrow> r
      | Inr (cmd, givenuser, w0) \<Rightarrow>
          if cmd = CMD_NULL \<or> optind iv \<noteq> argc iv then usage (argv0 iv) False w0
          else
            let w1 = c_umask 63 w0 in
            (case get_user w1 of
               None \<Rightarrow> (1, perror ''Unable to get username'' w1)
             | Some username \<Rightarrow>
                 (case get_state_path cfg username w1 of
                    (None, w2) \<Rightarrow> (1, perror ''Memory allocation failed'' w2)
                  | (Some state_path, w2) \<Rightarrow>
                      (case cmd of
                         CMD_ENABLE \<Rightarrow>
                           (case status state_path w2 of
                              (False, w3) \<Rightarrow>
                                (case enable state_path 3 w3 of (ret, w4) \<Rightarrow>
                                   (exit_status ret, w4))
                            | (True, w3) \<Rightarrow>
                                (exit_status (ret_init iv),
                                 fputs_stderr (''Error: 2FA configuration exists for user ''
                                               @ username @ ''.\<newline>'') w3))
                       | CMD_DISABLE \<Rightarrow>
                           if ruid w2 = 0 then
                             (case get_state_path cfg givenuser w2 of (state_path', w3) \<Rightarrow>
                                (case disable state_path' w3 of (ret, w4) \<Rightarrow>
                                   (exit_status ret, w4)))
                           else
                             (exit_status (ret_init iv),
                              fputs_stderr (''Error: Only root is allowed to disable 2FA for user ''
                                            @ givenuser @ ''.\<newline>'') w2)
                       | CMD_STATUS \<Rightarrow>
                           (case status state_path w2 of (ret, w3) \<Rightarrow> (exit_status ret, w3))
                       | CMD_NULL \<Rightarrow> (134, w2)
                       | CMD_NEXT \<Rightarrow> (134, w2)))))"

subsection \<open>Notions the properties are stated with\<close>

text \<open>
  The bytes that descriptor 3 delivers: what the reads find up to the end of the stream,
  the first read of no bytes or the first error.
\<close>

fun payload :: "rd_event list \<Rightarrow> byte list" where
  "payload [] = []"
| "payload (Data bs # es) = (if bs = [] then [] else bs @ payload es)"
| "payload (RdErr # es) = []"

text \<open>\<open>enable\<close>'s first \<^verbatim>\<open>unlink\<close> of the temporary file fails, other than by ENOENT.\<close>

definition pre_unlink_failed :: "path \<Rightarrow> world \<Rightarrow> bool" where
  "pre_unlink_failed state_path w =
     (case c_unlink (state_path @ ''.new'') w of (ret, w') \<Rightarrow> ret \<noteq> 0 \<and> errno w' \<noteq> ENOENT)"

text \<open>
  The second world differs from the first at most in errno, in what has been written
  to the two output streams, and in the umask.
\<close>

definition same_files :: "world \<Rightarrow> world \<Rightarrow> bool" where
  "same_files w w' \<longleftrightarrow>
     fs w' = fs w \<and> dir_writable w' = dir_writable w \<and> space w' = space w \<and>
     fds w' = fds w \<and> fd3 w' = fd3 w \<and> euid w' = euid w \<and> ruid w' = ruid w \<and>
     passwd w' = passwd w \<and> mallocs w' = mallocs w \<and> pam w' = pam w"

subsection \<open>Scenarios\<close>

text \<open>
  The setting of the end-to-end scenarios: the state directory is \<^verbatim>\<open>/var/lib/gauth\<close>,
  \<open>alice\<close> has user id 1000, the process runs with her identity and umask 022, the
  state directory is empty and can be changed, and nothing has been printed yet.
\<close>

definition cfg0 :: config where
  "cfg0 = \<lparr>GAUTH_STATEDIR = ''/var/lib/gauth'', VERSION = ''1''\<rparr>"

definition world0 :: world where
  "world0 =
     \<lparr>fs = Map.empty, dir_writable = True, space = 1000000, fds = Map.empty, fd3 = [],
      umask = 18, errno = ENOENT, stdout = [], stderr = [], ruid = 1000, euid = 1000,
      passwd = [0 \<mapsto> ''root'', 1000 \<mapsto> ''alice''], mallocs = [],
      pam = \<lparr>pam_start_ret = 0, pam_authenticate_ret = 0, pam_acct_mgmt_ret = 0,
             pam_end_ret = 0\<rparr>\<rparr>"

definition alice_path :: path where
  "alice_path = ''/var/lib/gauth/alice''"

text \<open>A regular file of alice's with mode 0600, and a command line without left-over arguments.\<close>

definition reg_file :: "byte list \<Rightarrow> inode" where
  "reg_file bs = \<lparr>i_kind = Reg, i_data = bs, i_mode = 384, i_owner = 1000\<rparr>"

definition cmdline :: "nat \<Rightarrow> (char \<times> string) list \<Rightarrow> bool \<Rightarrow> invocation" where
  "cmdline n os r = \<lparr>argv0 = ''gauthctl'', argc = n, opts = os, optind = n, ret_init = r\<rparr>"

text \<open>\<^verbatim>\<open>gauthctl --enable foo\<close>: one argument is left over after the options.\<close>

definition extra_arg :: invocation where
  "extra_arg = \<lparr>argv0 = ''gauthctl'', argc = 3, opts = [(CHR ''e'', [])], optind = 2,
                 ret_init = False\<rparr>"

text \<open>
  Scenario S1, started with umask 0777: no state file, and descriptor 3 delivers
  \<^verbatim>\<open>SECRETKEY\<close> and a newline.
\<close>

definition world_s1 :: world where
  "world_s1 = world0\<lparr>fd3 := [Data [83, 69, 67, 82, 69, 84, 75, 69, 89, 10]], umask := 511\<rparr>"

text \<open>
  Scenario S2: the state file holds \<^verbatim>\<open>OLD\<close> and a newline, and descriptor 3 delivers
  \<^verbatim>\<open>NEW\<close> and a newline.
\<close>

definition world_enabled :: world where
  "world_enabled = world0\<lparr>fs := [alice_path \<mapsto> reg_file [79, 76, 68, 10]],
                          fd3 := [Data [78, 69, 87, 10]]\<rparr>"

text \<open>A directory where the state file would be, and one where the temporary file would be.\<close>

definition world_dir :: world where
  "world_dir = world0\<lparr>fs := [alice_path \<mapsto>
       \<lparr>i_kind = Dir, i_data = [], i_mode = 448, i_owner = 1000\<rparr>]\<rparr>"

definition world_tmpdir :: world where
  "world_tmpdir = world0\<lparr>fs := [alice_path @ ''.new'' \<mapsto>
       \<lparr>i_kind = Dir, i_data = [], i_mode = 448, i_owner = 1000\<rparr>],
     fd3 := [Data [78, 69, 87, 10]]\<rparr>"

text \<open>
  The temporary file exists when \<open>enable\<close> comes to open it: another process has
  created it after the first \<^verbatim>\<open>unlink\<close>.
\<close>

definition world_race :: world where
  "world_race = world0\<lparr>fs := [alice_path @ ''.new'' \<mapsto> reg_file [88]],
                       fd3 := [Data [78, 69, 87, 10]]\<rparr>"

text \<open>Descriptor 3 delivers one byte, and the next read fails.\<close>

definition world_rderr :: world where
  "world_rderr = world0\<lparr>fd3 := [Data [65], RdErr]\<rparr>"

text \<open>Descriptor 3 delivers two bytes, and the device has room for one.\<close>

definition world_short :: world where
  "world_short = world0\<lparr>fd3 := [Data [65, 66]], space := 1\<rparr>"

text \<open>The process is root's, and two files exist at paths that usernames with slashes lead to.\<close>

definition world_root :: world where
  "world_root = world0\<lparr>ruid := 0, euid := 0,
     fs := [''/var/lib/gauth/../../etc/passwd'' \<mapsto> reg_file [114, 111, 111, 116],
            ''/var/lib/gauth/bob/../alice'' \<mapsto> reg_file [79, 76, 68, 10]]\<rparr>"

section \<open>Properties\<close>

subsection \<open>The copy loop and \<open>enable\<close>\<close>

lemma c_read_eof:
  "c_read in_fd 4096 w = (0, buf, w1) \<Longrightarrow>
     in_fd = 3 \<and> payload (fd3 w) = [] \<and> (\<exists>es. w1 = w\<lparr>fd3 := es\<rparr>)"
  apply (auto simp: c_read_def split: if_splits list.splits rd_event.splits)
  apply (rule exI [of _ "fd3 w"], simp)
  done

lemma c_read_err:
  "c_read in_fd 4096 w = (-1, buf, w1) \<Longrightarrow> \<exists>es e. w1 = w\<lparr>fd3 := es, errno := e\<rparr>"
  apply (auto simp: c_read_def split: if_splits list.splits rd_event.splits)
  apply (rule exI [of _ "fd3 w"], rule exI [of _ EBADF], simp)
  done

lemma c_read_data:
  "c_read in_fd 4096 w = (rd, buf, w1) \<Longrightarrow> rd \<noteq> 0 \<Longrightarrow> rd \<noteq> -1 \<Longrightarrow>
     in_fd = 3 \<and> take (nat rd) buf = buf \<and> buf \<noteq> [] \<and>
     payload (fd3 w) = buf @ payload (fd3 w1) \<and> (\<exists>es. w1 = w\<lparr>fd3 := es\<rparr>)"
  by (auto simp: c_read_def split: if_splits list.splits rd_event.splits)

lemma c_write_cases:
  "fds w fd = Some p \<Longrightarrow> fs w p = Some f \<Longrightarrow> buf \<noteq> [] \<Longrightarrow> c_write fd buf w = (wr, w2) \<Longrightarrow>
     (if space w = 0 then wr = -1 \<and> w2 = w\<lparr>errno := ENOSPC\<rparr>
      else wr \<noteq> -1 \<and>
           w2 = w\<lparr>fs := (fs w)(p \<mapsto> f\<lparr>i_data := i_data f @ take (space w) buf\<rparr>),
                  space := space w - length buf\<rparr>)"
  by (auto simp: c_write_def Let_def min_def split: if_splits)

lemma cleanup_fs:
  "fs w tmp = Some f \<Longrightarrow> i_kind f = Reg \<Longrightarrow> dir_writable w \<Longrightarrow>
   c_unlink tmp (c_close fd (perror s w)) =
     (0, w\<lparr>stderr := stderr w @ [Perror s (errno w)], fds := (fds w)(fd := None),
           fs := (fs w)(tmp := None)\<rparr>)"
  by (simp add: c_unlink_def c_close_def perror_def)


lemma copy_loop_spec:
  assumes "fds w out_fd = Some tmp" "fs w tmp = Some f" "i_kind f = Reg" "dir_writable w"
    and "copy_loop in_fd out_fd tmp w = (b, w')"
  shows "(\<forall>q. q \<noteq> tmp \<longrightarrow> fs w' q = fs w q) \<and> dir_writable w' \<and>
         umask w' = umask w \<and> euid w' = euid w \<and>
         (if b then in_fd = 3 \<and> fds w' out_fd = Some tmp \<and>
                    fs w' tmp = Some (f\<lparr>i_data := i_data f @ take (space w) (payload (fd3 w))\<rparr>)
          else fs w' tmp = None)"
  using assms
proof (induction in_fd out_fd tmp w arbitrary: f rule: copy_loop.induct)
  case (1 in_fd out_fd tmp w)
  obtain rd buf w1 where r: "c_read in_fd 4096 w = (rd, buf, w1)"
    by (metis prod_cases3)
  note unf = copy_loop.simps [of in_fd out_fd tmp w]
  show ?case
  proof (cases "rd = 0")
    case True
    with r "1.prems"(5) have bw: "b" "w' = w1"
      by (simp_all add: unf)
    from r True have "in_fd = 3 \<and> payload (fd3 w) = [] \<and> (\<exists>es. w1 = w\<lparr>fd3 := es\<rparr>)"
      using c_read_eof by blast
    with bw "1.prems"(1-4) show ?thesis
      by auto
  next
    case nz: False
    show ?thesis
    proof (cases "rd = -1")
      case True
      from r True obtain es e where w1: "w1 = w\<lparr>fd3 := es, errno := e\<rparr>"
        using c_read_err by blast
      from r True nz "1.prems"(5) have bw: "\<not> b"
        "w' = snd (c_unlink tmp (c_close out_fd (perror ''Reading config file failed'' w1)))"
        by (simp_all add: unf Let_def)
      from w1 "1.prems"(2-4) have "fs w1 tmp = Some f" "dir_writable w1"
        by simp_all
      from cleanup_fs [OF this(1) "1.prems"(3) this(2)] bw w1 "1.prems"(4) show ?thesis
        by simp
    next
      case nm: False
      from c_read_data [OF r nz nm] obtain es where
        d: "in_fd = 3" "take (nat rd) buf = buf" "buf \<noteq> []"
           "payload (fd3 w) = buf @ payload (fd3 w1)" "w1 = w\<lparr>fd3 := es\<rparr>"
        by blast
      obtain wr w2 where wq: "c_write out_fd (take (nat rd) buf) w1 = (wr, w2)"
        by (metis prod.exhaust)
      from d "1.prems"(1,2,4) have inv1: "fds w1 out_fd = Some tmp" "fs w1 tmp = Some f"
        "dir_writable w1" "space w1 = space w"
        by simp_all
      from wq d(2) have wq': "c_write out_fd buf w1 = (wr, w2)"
        by simp
      note cw = c_write_cases [OF inv1(1,2) d(3) wq']
      show ?thesis
      proof (cases "space w = 0")
        case True
        with cw inv1 have w2: "wr = -1" "w2 = w1\<lparr>errno := ENOSPC\<rparr>"
          by simp_all
        from r nz nm wq w2(1) "1.prems"(5) have bw: "\<not> b"
          "w' = snd (c_unlink tmp (c_close out_fd (perror ''Writing temporary file failed'' w2)))"
          by (simp_all add: unf Let_def)
        from w2 inv1 have "fs w2 tmp = Some f" "dir_writable w2"
          by simp_all
        from cleanup_fs [OF this(1) "1.prems"(3) this(2)] bw w2 d(5) "1.prems"(4) show ?thesis
          by simp
      next
        case False
        define f2 where "f2 = f\<lparr>i_data := i_data f @ take (space w) buf\<rparr>"
        from False cw inv1 have w2: "wr \<noteq> -1"
          "w2 = w1\<lparr>fs := (fs w1)(tmp \<mapsto> f2), space := space w - length buf\<rparr>"
          by (simp_all add: f2_def)
        from r nz nm wq w2(1) "1.prems"(5) have rec: "copy_loop in_fd out_fd tmp w2 = (b, w')"
          by (simp add: unf)
        from w2 inv1 "1.prems"(3) have inv2: "fds w2 out_fd = Some tmp" "fs w2 tmp = Some f2"
          "i_kind f2 = Reg" "dir_writable w2"
          by (simp_all add: f2_def)
        have ih: "(\<forall>q. q \<noteq> tmp \<longrightarrow> fs w' q = fs w2 q) \<and> dir_writable w' \<and>
           umask w' = umask w2 \<and> euid w' = euid w2 \<and>
           (if b then in_fd = 3 \<and> fds w' out_fd = Some tmp \<and>
                      fs w' tmp = Some (f2\<lparr>i_data := i_data f2 @ take (space w2) (payload (fd3 w2))\<rparr>)
            else fs w' tmp = None)"
          by (rule "1.IH" [OF r [symmetric] refl nz nm wq [symmetric] w2(1) inv2 rec])
        have tk: "take (space w) buf @ take (space w - length buf) (payload (fd3 w1))
                  = take (space w) (payload (fd3 w))"
          by (simp add: d(4))
        from w2 d(5) have eqs: "fd3 w2 = fd3 w1" "space w2 = space w - length buf"
          "umask w2 = umask w" "euid w2 = euid w" "\<And>q. q \<noteq> tmp \<Longrightarrow> fs w2 q = fs w q"
          by simp_all
        from ih show ?thesis
          by (simp add: eqs f2_def tk)
      qed
    qed
  qed
qed


lemma c_malloc_frame:
  "c_malloc w = (m, w1) \<Longrightarrow>
     fs w1 = fs w \<and> dir_writable w1 = dir_writable w \<and> space w1 = space w \<and>
     fds w1 = fds w \<and> fd3 w1 = fd3 w \<and> umask w1 = umask w \<and> euid w1 = euid w"
  by (auto simp: c_malloc_def split: list.splits if_splits)

lemma pre_unlink_failed_iff:
  "pre_unlink_failed p w \<longleftrightarrow>
     (\<exists>f. fs w (p @ ''.new'') = Some f \<and> (\<not> dir_writable w \<or> i_kind f = Dir))"
  by (auto simp: pre_unlink_failed_def c_unlink_def split: option.splits)

lemma c_unlink_cases:
  "c_unlink q w = (ret, w2) \<Longrightarrow>
     dir_writable w2 = dir_writable w \<and> space w2 = space w \<and>
     fds w2 = fds w \<and> fd3 w2 = fd3 w \<and> umask w2 = umask w \<and> euid w2 = euid w \<and>
     (if ret \<noteq> 0 \<and> errno w2 \<noteq> ENOENT then fs w2 = fs w \<and> fs w q \<noteq> None
      else fs w2 = (fs w)(q := None))"
  by (auto simp: c_unlink_def fun_upd_idem split: option.splits if_splits)

lemma c_open_cases:
  "fs w q = None \<Longrightarrow> c_open_creat_excl q m w = (fd, w3) \<Longrightarrow>
     (if fd = -1 then w3 = w\<lparr>errno := EACCES\<rparr>
      else dir_writable w \<and>
           w3 = w\<lparr>fs := (fs w)(q \<mapsto> \<lparr>i_kind = Reg, i_data = [], i_mode = m AND NOT (umask w),
                                         i_owner = euid w\<rparr>),
                  fds := (fds w)(4 \<mapsto> q)\<rparr> \<and> fd = 4)"
  by (auto simp: c_open_creat_excl_def split: if_splits)

lemma c_rename_cases:
  "fs w old = Some f \<Longrightarrow> dir_writable w \<Longrightarrow> c_rename old new w = (ret, w6) \<Longrightarrow>
     (if ret \<noteq> 0 then w6 = w\<lparr>errno := EISDIR\<rparr>
      else w6 = w\<lparr>fs := (fs w)(old := None, new \<mapsto> f)\<rparr>)"
  by (auto simp: c_rename_def split: if_splits option.splits)

lemma enable_spec:
  assumes en: "enable p in_fd w = (r, w')"
  shows "(\<forall>q. q \<noteq> p \<and> q \<noteq> p @ ''.new'' \<longrightarrow> fs w' q = fs w q) \<and>
         umask w' = umask w \<and>
         (if r
          then in_fd = 3 \<and> fs w' (p @ ''.new'') = None \<and>
               fs w' p = Some \<lparr>i_kind = Reg, i_data = take (space w) (payload (fd3 w)),
                                i_mode = 384 AND NOT (umask w), i_owner = euid w\<rparr>
          else fs w' p = fs w p \<and>
               (if \<not> fst (c_malloc w) \<or> pre_unlink_failed p w then fs w' = fs w
                else fs w' (p @ ''.new'') = None))"
proof -
  define tmp where "tmp = p @ ''.new''"
  have ne: "tmp \<noteq> p" "p \<noteq> tmp"
    by (simp_all add: tmp_def)
  obtain m w1 where m: "c_malloc w = (m, w1)"
    by (metis prod.exhaust)
  note w1 = c_malloc_frame [OF m]
  show ?thesis
  proof (cases m)
    case False
    with en m have "\<not> r" "w' = perror ''Memory allocation failed'' w1"
      by (simp_all add: enable_def)
    with w1 m False show ?thesis
      by (simp add: perror_def)
  next
    case mt: True
    obtain ret w2 where u: "c_unlink tmp w1 = (ret, w2)"
      by (metis prod.exhaust)
    have puf: "pre_unlink_failed p w \<longleftrightarrow> ret \<noteq> 0 \<and> errno w2 \<noteq> ENOENT"
      using u w1 by (auto simp: pre_unlink_failed_def tmp_def c_unlink_def split: option.splits if_splits)
    note uc = c_unlink_cases [OF u]
    show ?thesis
    proof (cases "ret \<noteq> 0 \<and> errno w2 \<noteq> ENOENT")
      case True
      with en m mt u have "\<not> r" "w' = perror ''Unable to pre-unlink temporary file'' w2"
        by (simp_all add: enable_def tmp_def [symmetric])
      moreover from uc True have "fs w2 = fs w1" "umask w2 = umask w1"
        by simp_all
      ultimately show ?thesis
        using w1 puf True by (simp add: perror_def)
    next
      case uok: False
      with uc have w2: "fs w2 = (fs w1)(tmp := None)" "dir_writable w2 = dir_writable w1"
        "space w2 = space w1" "fd3 w2 = fd3 w1" "umask w2 = umask w1" "euid w2 = euid w1"
        by simp_all
      have w2tmp: "fs w2 tmp = None"
        by (simp add: w2)
      obtain out_fd w3 where op: "c_open_creat_excl tmp 384 w2 = (out_fd, w3)"
        by (metis prod.exhaust)
      note oc = c_open_cases [OF w2tmp op]
      show ?thesis
      proof (cases "out_fd = -1")
        case True
        with en m mt u uok op have "\<not> r" "w' = perror ''Unable to open temporary file for writing'' w3"
          by (simp_all add: enable_def tmp_def [symmetric])
        moreover from oc True have "w3 = w2\<lparr>errno := EACCES\<rparr>"
          by simp
        ultimately show ?thesis
          using w1 w2 puf uok ne m mt by (auto simp: perror_def tmp_def [symmetric])
      next
        case ook: False
        define f0 where "f0 = \<lparr>i_kind = Reg, i_data = [], i_mode = 384 AND NOT (umask w2),
                                i_owner = euid w2\<rparr>"
        from oc ook have w3: "dir_writable w2" "out_fd = 4"
          "w3 = w2\<lparr>fs := (fs w2)(tmp \<mapsto> f0), fds := (fds w2)(4 \<mapsto> tmp)\<rparr>"
          by (simp_all add: f0_def)
        obtain b w4 where cl: "copy_loop in_fd out_fd tmp w3 = (b, w4)"
          by (metis prod.exhaust)
        have inv3: "fds w3 out_fd = Some tmp" "fs w3 tmp = Some f0" "i_kind f0 = Reg" "dir_writable w3"
          using w3 by (simp_all add: f0_def)
        note cs = copy_loop_spec [OF inv3 cl]
        have fr3: "space w3 = space w" "fd3 w3 = fd3 w" "umask w2 = umask w" "euid w2 = euid w"
          "\<And>q. q \<noteq> tmp \<Longrightarrow> fs w3 q = fs w q" "umask w3 = umask w"
          using w1 w2 w3 by simp_all
        show ?thesis
        proof (cases b)
          case False
          with en m mt u uok op ook cl have "\<not> r" "w' = w4"
            by (simp_all add: enable_def tmp_def [symmetric])
          with cs False fr3 puf uok ne m mt show ?thesis
            by (simp add: tmp_def [symmetric])
        next
          case bt: True
          define f1 where "f1 = f0\<lparr>i_data := i_data f0 @ take (space w3) (payload (fd3 w3))\<rparr>"
          define w5 where "w5 = c_close out_fd w4"
          from cs bt have w4: "in_fd = 3" "fs w4 tmp = Some f1" "dir_writable w4"
            "\<And>q. q \<noteq> tmp \<Longrightarrow> fs w4 q = fs w3 q" "umask w4 = umask w3"
            by (simp_all add: f1_def)
          then have w5f: "fs w5 tmp = Some f1" "dir_writable w5" "fs w5 = fs w4"
            "umask w5 = umask w4"
            by (simp_all add: w5_def c_close_def)
          obtain ret' w6 where rn: "c_rename tmp p w5 = (ret', w6)"
            by (metis prod.exhaust)
          note rc = c_rename_cases [OF w5f(1,2) rn]
          have f1_eq: "f1 = \<lparr>i_kind = Reg, i_data = take (space w) (payload (fd3 w)),
                                i_mode = 384 AND NOT (umask w), i_owner = euid w\<rparr>"
            by (simp add: f1_def f0_def fr3)
          show ?thesis
          proof (cases "ret' \<noteq> 0")
            case True
            with en m mt u uok op ook cl bt rn have r: "\<not> r"
              "w' = snd (c_unlink tmp (perror ''Replacing state file failed'' w6))"
              by (simp_all add: enable_def tmp_def [symmetric] w5_def Let_def)
            from rc True have w6: "w6 = w5\<lparr>errno := EISDIR\<rparr>"
              by simp
            have "fs w' = (fs w4)(tmp := None)" "umask w' = umask w4"
              using r(2) w6 w5f by (simp_all add: c_unlink_def perror_def f1_def f0_def)
            with r(1) w4 fr3 puf uok ne m mt show ?thesis
              by (simp add: tmp_def [symmetric])
          next
            case False
            with en m mt u uok op ook cl bt rn have r: "r"
              "w' = fputs_stderr ''GAuth set up successfully\<newline>'' w6"
              by (simp_all add: enable_def tmp_def [symmetric] w5_def Let_def)
            from rc False have w6: "w6 = w5\<lparr>fs := (fs w5)(tmp := None, p \<mapsto> f1)\<rparr>"
              by simp
            have "fs w' = (fs w4)(tmp := None, p \<mapsto> f1)" "umask w' = umask w4"
              using r(2) w6 w5f by (simp_all add: fputs_stderr_def)
            with r(1) w4 fr3 ne f1_eq show ?thesis
              by (simp add: tmp_def [symmetric])
          qed
        qed
      qed
    qed
  qed
qed

subsection \<open>The option loop\<close>

lemma parse_opts_Inr:
  "parse_opts cfg prog os cmd g w = Inr (cmd', g', w') \<Longrightarrow>
     same_files w w' \<and> umask w' = umask w \<and> stdout w' = stdout w \<and> (\<exists>ls. stderr w' = stderr w @ ls)"
proof (induction cfg prog os cmd g w rule: parse_opts.induct)
  case (1 cfg prog cmd givenuser w)
  then show ?case by (simp add: same_files_def)
next
  case (2 cfg prog opt optarg rest cmd givenuser w)
  show ?case
  proof (cases "opt = CHR '':''")
    case True
    with "2.prems" have "parse_opts cfg prog rest cmd givenuser
        (fputs_stderr ''missing argument.\<newline>'' w) = Inr (cmd', g', w')"
      by simp
    with True have "same_files (fputs_stderr ''missing argument.\<newline>'' w) w' \<and>
      umask w' = umask (fputs_stderr ''missing argument.\<newline>'' w) \<and>
      stdout w' = stdout (fputs_stderr ''missing argument.\<newline>'' w) \<and>
      (\<exists>ls. stderr w' = stderr (fputs_stderr ''missing argument.\<newline>'' w) @ ls)"
      by (intro "2.IH"(4)) simp_all
    then show ?thesis
      by (auto simp: same_files_def fputs_stderr_def)
  next
    case False
    with "2.prems" "2.IH"(1-3) show ?thesis
      by (auto split: if_splits)
  qed
qed

lemma usage_frame: "usage prog h w = (c, w') \<Longrightarrow> same_files w w' \<and> c = (if h then 0 else 1)"
  by (auto simp: usage_def same_files_def Let_def split: if_splits)

lemma parse_opts_Inl:
  "parse_opts cfg prog os cmd g w = Inl (c, w') \<Longrightarrow> same_files w w'"
proof (induction cfg prog os cmd g w rule: parse_opts.induct)
  case (1 cfg prog cmd givenuser w)
  then show ?case by simp
next
  case (2 cfg prog opt optarg rest cmd givenuser w)
  show ?case
  proof (cases "opt = CHR '':''")
    case True
    with "2.prems" have "parse_opts cfg prog rest cmd givenuser
        (fputs_stderr ''missing argument.\<newline>'' w) = Inl (c, w')"
      by simp
    with True have "same_files (fputs_stderr ''missing argument.\<newline>'' w) w'"
      by (intro "2.IH"(4)) simp_all
    then show ?thesis
      by (auto simp: same_files_def fputs_stderr_def)
  next
    case False
    with "2.prems" "2.IH"(1-3) show ?thesis
      by (auto simp: same_files_def fputs_stdout_def usage_def Let_def split: if_splits)
  qed
qed

text \<open>
  The loop never leaves \<open>cmd\<close> at \<open>CMD_NEXT\<close>, so the second \<^verbatim>\<open>assert\<close> of
  \<open>main\<close> is not reached; and when it leaves \<open>cmd\<close> at \<open>CMD_DISABLE\<close>, \<open>givenuser\<close>
  is the argument of a \<^verbatim>\<open>-d\<close> option, so \<open>main\<close> never reads it uninitialised.
\<close>

lemma parse_opts_not_NEXT:
  "parse_opts cfg prog os cmd g w = Inr (cmd', g', w') \<Longrightarrow> cmd \<noteq> CMD_NEXT \<Longrightarrow> cmd' \<noteq> CMD_NEXT"
  by (induction cfg prog os cmd g w rule: parse_opts.induct) (auto split: if_splits)

lemma parse_opts_givenuser:
  "parse_opts cfg prog os cmd g w = Inr (CMD_DISABLE, g', w') \<Longrightarrow>
     (cmd = CMD_DISABLE \<and> g' = g) \<or> (CHR ''d'', g') \<in> set os"
  by (induction cfg prog os cmd g w rule: parse_opts.induct) (auto split: if_splits)

subsection \<open>\<open>status\<close>, \<open>get_state_path\<close> and the dispatch of \<open>main\<close>\<close>

lemma status_iff:
  "fst (status p w) \<longleftrightarrow> (\<exists>f. fs w p = Some f \<and> may_read (euid w) f)"
  by (auto simp: status_def c_fopen_r_def fputs_stdout_def Let_def split: option.splits)

lemma status_frame: "status p w = (r, w') \<Longrightarrow> same_files w w' \<and> umask w' = umask w \<and> stderr w' = stderr w"
  by (auto simp: status_def c_fopen_r_def fputs_stdout_def same_files_def Let_def split: option.splits if_splits)

lemma get_state_path_frame:
  "get_state_path cfg u w = (r, w') \<Longrightarrow>
     fs w' = fs w \<and> dir_writable w' = dir_writable w \<and> space w' = space w \<and>
     fds w' = fds w \<and> fd3 w' = fd3 w \<and> euid w' = euid w \<and> ruid w' = ruid w \<and>
     passwd w' = passwd w \<and> umask w' = umask w \<and> stderr w' = stderr w \<and> stdout w' = stdout w \<and>
     pam w' = pam w \<and>
     r = (if fst (c_malloc w) then Some (GAUTH_STATEDIR cfg @ ''/'' @ u) else None)"
  by (auto simp: get_state_path_def c_malloc_def split: list.splits if_splits prod.splits)

lemma main_status:
  assumes p: "parse_opts cfg (argv0 iv) (opts iv) CMD_NULL [] w = Inr (CMD_STATUS, g, w0)"
    and o: "optind iv = argc iv"
  shows "fs (snd (main cfg iv w)) = fs w \<and> fd3 (snd (main cfg iv w)) = fd3 w \<and>
         (get_user w = Some u \<and> fst (c_malloc w) \<longrightarrow>
            fst (main cfg iv w) = exit_status (fst (status (GAUTH_STATEDIR cfg @ ''/'' @ u) w)))"
proof -
  define w1 where "w1 = c_umask 63 w0"
  from parse_opts_Inr [OF p] have sf: "same_files w w1"
    by (simp add: w1_def c_umask_def same_files_def)
  then have gu: "get_user w1 = get_user w" and ml: "c_malloc w1 = (fst (c_malloc w), snd (c_malloc w1))"
    "fst (c_malloc w1) = fst (c_malloc w)"
    by (auto simp: get_user_def same_files_def c_malloc_def split: list.splits)
  show ?thesis
  proof (cases "get_user w")
    case None
    with p o gu sf show ?thesis
      by (simp add: main_def w1_def [symmetric] perror_def same_files_def)
  next
    case (Some name)
    obtain r w2 where gsp: "get_state_path cfg name w1 = (r, w2)"
      by (metis prod.exhaust)
    note fr = get_state_path_frame [OF gsp]
    show ?thesis
    proof (cases r)
      case None
      with p o gu sf Some gsp fr ml show ?thesis
        by (auto simp: main_def w1_def [symmetric] perror_def same_files_def split: if_splits)
    next
      case (Some sp)
      obtain st w3 where st: "status sp w2 = (st, w3)"
        by (metis prod.exhaust)
      from status_frame [OF st] fr sf have f3: "fs w3 = fs w" "fd3 w3 = fd3 w"
        by (simp_all add: same_files_def)
      have "st = fst (status sp w)"
        using st fr sf status_iff [of sp w2] status_iff [of sp w]
        by (simp add: same_files_def)
      with p o gu sf \<open>get_user w = Some name\<close> gsp fr ml Some st f3 show ?thesis
        by (auto simp: main_def w1_def [symmetric] split: if_splits)
    qed
  qed
qed

lemma main_dispatch:
  assumes p: "parse_opts cfg (argv0 iv) (opts iv) CMD_NULL [] w = Inr (cmd, givenuser, w0)"
    and c: "cmd \<noteq> CMD_NULL" and o: "optind iv = argc iv"
    and u: "get_user w = Some username" and m: "fst (c_malloc w)"
    and sp: "sp = GAUTH_STATEDIR cfg @ ''/'' @ username"
  shows "\<exists>w2. same_files w (w2\<lparr>mallocs := mallocs w\<rparr>) \<and> mallocs w2 = tl (mallocs w) \<and>
           umask w2 = 63 \<and> stderr w2 = stderr w0 \<and> stdout w2 = stdout w \<and>
           (cmd = CMD_ENABLE \<longrightarrow> main cfg iv w =
              (case status sp w2 of
                 (False, w3) \<Rightarrow>
                   (case enable sp 3 w3 of (ret, w4) \<Rightarrow> (exit_status ret, w4))
               | (True, w3) \<Rightarrow>
                   (exit_status (ret_init iv),
                    fputs_stderr (''Error: 2FA configuration exists for user ''
                                  @ username @ ''.\<newline>'') w3))) \<and>
           (cmd = CMD_DISABLE \<longrightarrow> main cfg iv w =
              (if ruid w2 = 0 then
                 (case get_state_path cfg givenuser w2 of (state_path', w3) \<Rightarrow>
                    (case disable state_path' w3 of (ret, w4) \<Rightarrow> (exit_status ret, w4)))
               else
                 (exit_status (ret_init iv),
                  fputs_stderr (''Error: Only root is allowed to disable 2FA for user ''
                                @ givenuser @ ''.\<newline>'') w2))) \<and>
           (cmd = CMD_STATUS \<longrightarrow> main cfg iv w =
              (case status sp w2 of (ret, w3) \<Rightarrow> (exit_status ret, w3)))"
proof -
  define w1 where "w1 = c_umask 63 w0"
  from parse_opts_Inr [OF p] have sf: "same_files w w1" "stderr w1 = stderr w0" "umask w1 = 63"
    "stdout w1 = stdout w"
    by (simp_all add: w1_def c_umask_def same_files_def)
  then have gu: "get_user w1 = Some username" and ml: "fst (c_malloc w1)"
    using u m by (auto simp: get_user_def same_files_def c_malloc_def split: list.splits)
  obtain r w2 where gsp: "get_state_path cfg username w1 = (r, w2)"
    by (metis prod.exhaust)
  from get_state_path_frame [OF gsp] ml
  have fr: "r = Some sp" "fs w2 = fs w1"
    "dir_writable w2 = dir_writable w1" "space w2 = space w1" "fds w2 = fds w1" "fd3 w2 = fd3 w1"
    "euid w2 = euid w1" "ruid w2 = ruid w1" "passwd w2 = passwd w1" "umask w2 = umask w1"
    "stderr w2 = stderr w1" "stdout w2 = stdout w1" "pam w2 = pam w1"
    by (simp_all add: sp)
  have mt: "mallocs w2 = tl (mallocs w)"
    using gsp ml sf(1)
    by (auto simp: get_state_path_def c_malloc_def same_files_def split: list.splits if_splits)
  have sf2: "same_files w (w2\<lparr>mallocs := mallocs w\<rparr>)"
    using sf fr by (simp add: same_files_def)
  have e: "cmd = CMD_ENABLE \<longrightarrow> main cfg iv w =
              (case status sp w2 of
                 (False, w3) \<Rightarrow>
                   (case enable sp 3 w3 of (ret, w4) \<Rightarrow> (exit_status ret, w4))
               | (True, w3) \<Rightarrow>
                   (exit_status (ret_init iv),
                    fputs_stderr (''Error: 2FA configuration exists for user ''
                                  @ username @ ''.\<newline>'') w3))"
    using p o gu gsp fr(1) by (simp add: main_def w1_def [symmetric])
  have d: "cmd = CMD_DISABLE \<longrightarrow> main cfg iv w =
              (if ruid w2 = 0 then
                 (case get_state_path cfg givenuser w2 of (state_path', w3) \<Rightarrow>
                    (case disable state_path' w3 of (ret, w4) \<Rightarrow> (exit_status ret, w4)))
               else
                 (exit_status (ret_init iv),
                  fputs_stderr (''Error: Only root is allowed to disable 2FA for user ''
                                @ givenuser @ ''.\<newline>'') w2))"
    using p o gu gsp fr(1) by (simp add: main_def w1_def [symmetric])
  have s: "cmd = CMD_STATUS \<longrightarrow> main cfg iv w =
              (case status sp w2 of (ret, w3) \<Rightarrow> (exit_status ret, w3))"
    using p o gu gsp fr(1) by (simp add: main_def w1_def [symmetric])
  from sf2 mt fr(10,11,12) sf(2,3,4) e d s show ?thesis
    by (intro exI [of _ w2]) simp
qed

lemma main_malloc_fail:
  assumes p: "parse_opts cfg (argv0 iv) (opts iv) CMD_NULL [] w = Inr (cmd, givenuser, w0)"
    and c: "cmd \<noteq> CMD_NULL" and o: "optind iv = argc iv"
    and m: "\<not> fst (c_malloc w)"
  shows "fst (main cfg iv w) = 1 \<and> fs (snd (main cfg iv w)) = fs w \<and> fd3 (snd (main cfg iv w)) = fd3 w"
proof -
  define w1 where "w1 = c_umask 63 w0"
  from parse_opts_Inr [OF p] have sf: "same_files w w1"
    by (simp_all add: w1_def c_umask_def same_files_def)
  then have gu: "get_user w1 = get_user w" and ml: "\<not> fst (c_malloc w1)"
    using m by (auto simp: get_user_def same_files_def c_malloc_def split: list.splits)
  show ?thesis
  proof (cases "get_user w")
    case None
    with p c o gu sf show ?thesis
      by (simp add: main_def w1_def [symmetric] perror_def same_files_def)
  next
    case (Some name)
    obtain r w2 where gsp: "get_state_path cfg name w1 = (r, w2)"
      by (metis prod.exhaust)
    from get_state_path_frame [OF gsp] ml have "r = None" "fs w2 = fs w1" "fd3 w2 = fd3 w1"
      by simp_all
    with p c o gu sf Some gsp show ?thesis
      by (simp add: main_def w1_def [symmetric] perror_def same_files_def)
  qed
qed

subsection \<open>Evaluating the scenarios\<close>

lemmas eval_defs =
  main_def parse_opts.simps usage_def get_user_def get_state_path_def status_def enable_def disable_def
  copy_loop.simps c_malloc_def c_unlink_def c_open_creat_excl_def c_read_def c_write_def
  c_close_def c_rename_def c_fopen_r_def c_umask_def may_read_def perror_def fputs_stderr_def
  fputs_stdout_def exit_status_def Let_def
  cfg0_def world0_def alice_path_def reg_file_def world_enabled_def cmdline_def world_dir_def world_s1_def
  world_tmpdir_def world_rderr_def world_short_def
  world_root_def
  extra_arg_def

subsection \<open>Authentication\<close>

lemma authenticate_result:
  "fst (authenticate username w) \<longleftrightarrow>
     pam_start_ret (pam w) = PAM_SUCCESS \<and> pam_acct_mgmt_ret (pam w) = PAM_SUCCESS \<and>
     pam_end_ret (pam w) = PAM_SUCCESS"
  by (simp add: authenticate_def Let_def)

text \<open>
  Claim C9. If the authenticate step or the account step of PAM fails, \<open>authenticate\<close>
  returns false. The code does not do so for the authenticate step: with
  \<^verbatim>\<open>pam_authenticate\<close> returning 7 (\<^verbatim>\<open>PAM_AUTH_ERR\<close>) and the other three calls
  succeeding, \<open>authenticate\<close> returns true and prints nothing.
\<close>

theorem authenticate_ignores_auth_failure:
  "authenticate ''alice'' (world0\<lparr>pam := (pam world0)\<lparr>pam_authenticate_ret := 7\<rparr>\<rparr>)
   = (True, world0\<lparr>pam := (pam world0)\<lparr>pam_authenticate_ret := 7\<rparr>\<rparr>)"
  by (simp add: authenticate_def world0_def PAM_SUCCESS_def)

subsection \<open>Removal\<close>

text \<open>
  Claim C8. \<open>disable\<close> is idempotent: run twice in succession it succeeds both times and
  leaves the state file absent. It succeeds exactly when \<^verbatim>\<open>unlink\<close> returns 0 or fails
  with ENOENT, so an absent file is a success and every other failure of \<^verbatim>\<open>unlink\<close> is
  a failure of \<open>disable\<close>, which then leaves the files as they are.
\<close>

theorem disable_idempotent:
  assumes "disable (Some p) w = (r1, w1)" and "disable (Some p) w1 = (r2, w2)"
  shows "(r1 \<longleftrightarrow> fst (c_unlink p w) = 0 \<or> errno (snd (c_unlink p w)) = ENOENT) \<and>
         (fs w p = None \<longrightarrow> r1) \<and>
         (r1 \<longrightarrow> r2 \<and> fs w1 p = None \<and> fs w2 p = None) \<and>
         (\<not> r1 \<longrightarrow> fs w1 = fs w)"
  using assms
  by (auto simp: disable_def c_unlink_def fputs_stderr_def perror_def
           split: option.splits if_splits prod.splits)

theorem disable_idempotent_witness:
  "fst (disable (Some alice_path) world_enabled) \<and>
   fst (disable (Some alice_path) (snd (disable (Some alice_path) world_enabled))) \<and>
   fs world_enabled alice_path \<noteq> None \<and>
   fs (snd (disable (Some alice_path) world_enabled)) alice_path = None \<and>
   fs (snd (disable (Some alice_path) (snd (disable (Some alice_path) world_enabled)))) alice_path = None"
  using disable_idempotent [of alice_path world_enabled
      "fst (disable (Some alice_path) world_enabled)"
      "snd (disable (Some alice_path) world_enabled)"
      "fst (disable (Some alice_path) (snd (disable (Some alice_path) world_enabled)))"
      "snd (disable (Some alice_path) (snd (disable (Some alice_path) world_enabled)))"]
  by (simp add: c_unlink_def world_enabled_def world0_def reg_file_def)

subsection \<open>Permissions of the state file\<close>

text \<open>
  Whenever \<^verbatim>\<open>--enable\<close> runs \<open>enable\<close> (the state file cannot be opened yet) and the
  program exits with status 0, the umask is 077, the temporary file is gone and the state
  file is a regular file with mode bits 0600 (384), whatever umask the process was
  started with.
\<close>

lemma main_enable_0600:
  assumes p: "parse_opts cfg (argv0 iv) (opts iv) CMD_NULL [] w = Inr (CMD_ENABLE, g, w0)"
    and o: "optind iv = argc iv" and u: "get_user w = Some username"
    and ns: "\<not> fst (status (GAUTH_STATEDIR cfg @ ''/'' @ username) w)"
    and ok: "fst (main cfg iv w) = 0"
  shows "umask (snd (main cfg iv w)) = 63 \<and>
         fs (snd (main cfg iv w)) (GAUTH_STATEDIR cfg @ ''/'' @ username @ ''.new'') = None \<and>
         (\<exists>bs. fs (snd (main cfg iv w)) (GAUTH_STATEDIR cfg @ ''/'' @ username)
                = Some \<lparr>i_kind = Reg, i_data = bs, i_mode = 384, i_owner = euid w\<rparr>)"
proof -
  define sp where "sp = GAUTH_STATEDIR cfg @ ''/'' @ username"
  have m: "fst (c_malloc w)"
    using main_malloc_fail [OF p _ o] ok by fastforce
  from main_dispatch [OF p _ o u m sp_def] obtain w2 where
    w2: "same_files w (w2\<lparr>mallocs := mallocs w\<rparr>)" "umask w2 = 63" and
    mn: "main cfg iv w =
           (case status sp w2 of
              (False, w3) \<Rightarrow> (case enable sp 3 w3 of (ret, w4) \<Rightarrow> (exit_status ret, w4))
            | (True, w3) \<Rightarrow>
                (exit_status (ret_init iv),
                 fputs_stderr (''Error: 2FA configuration exists for user ''
                               @ username @ ''.\<newline>'') w3))"
    by auto
  obtain st w3 where st: "status sp w2 = (st, w3)"
    by (metis prod.exhaust)
  have "st = fst (status sp w)"
    using st w2(1) status_iff [of sp w2] status_iff [of sp w]
    by (simp add: same_files_def)
  with ns have nst: "\<not> st"
    by (simp add: sp_def)
  obtain r w4 where en: "enable sp 3 w3 = (r, w4)"
    by (metis prod.exhaust)
  from mn st nst en ok have r: "r" and w4: "snd (main cfg iv w) = w4"
    by (simp_all add: exit_status_def split: if_splits)
  from status_frame [OF st] w2 have f3: "umask w3 = 63" "euid w3 = euid w"
    by (simp_all add: same_files_def)
  have um: "umask w4 = umask w3"
    using enable_spec [OF en] by simp
  have "(384 :: mode_t) AND NOT 63 = 384"
    by simp
  with enable_spec [OF en] r f3 um w4 show ?thesis
    by (simp add: sp_def)
qed

lemma enable_from_open:
  "enable state_path in_fd w =
     (case c_malloc w of
        (False, w1) \<Rightarrow> (False, perror ''Memory allocation failed'' w1)
      | (True, w1) \<Rightarrow>
          (case c_unlink (state_path @ ''.new'') w1 of (ret, w2) \<Rightarrow>
             if ret \<noteq> 0 \<and> errno w2 \<noteq> ENOENT
             then (False, perror ''Unable to pre-unlink temporary file'' w2)
             else enable_write state_path (state_path @ ''.new'') in_fd w2))"
  unfolding enable_def enable_write_def Let_def ..

lemma enable_write_exclusive:
  "fs w2 tmp_buf = Some f \<Longrightarrow>
   enable_write state_path tmp_buf in_fd w2 =
     (False, perror ''Unable to open temporary file for writing'' (w2\<lparr>errno := EEXIST\<rparr>))"
  by (simp add: enable_write_def c_open_creat_excl_def)

text \<open>
  Claim C6. After a successful \<^verbatim>\<open>--enable\<close> the state file has mode bits 0600: \<open>main\<close>
  sets the umask to 077 before any file is created, and whenever it runs \<open>enable\<close> and
  exits with status 0 the state file is a regular file of mode 0600 (384) and the
  temporary file is gone. \<open>enable\<close> creates the temporary file with mode 0600 and
  exclusively: after its first \<^verbatim>\<open>unlink\<close> it runs \<open>enable_write\<close>, and
  \<open>enable_write\<close>, started where the temporary path exists, fails with EEXIST and
  leaves every file as it is.
\<close>

theorem enable_mode_0600:
  "(parse_opts cfg (argv0 iv) (opts iv) CMD_NULL [] w = Inr (CMD_ENABLE, g, w0) \<and>
    optind iv = argc iv \<and> get_user w = Some username \<and>
    \<not> fst (status (GAUTH_STATEDIR cfg @ ''/'' @ username) w) \<and> fst (main cfg iv w) = 0 \<longrightarrow>
      umask (snd (main cfg iv w)) = 63 \<and>
      fs (snd (main cfg iv w)) (GAUTH_STATEDIR cfg @ ''/'' @ username @ ''.new'') = None \<and>
      (\<exists>bs. fs (snd (main cfg iv w)) (GAUTH_STATEDIR cfg @ ''/'' @ username)
             = Some \<lparr>i_kind = Reg, i_data = bs, i_mode = 384, i_owner = euid w\<rparr>)) \<and>
   (fst (c_malloc w) \<and> \<not> pre_unlink_failed p (snd (c_malloc w)) \<longrightarrow>
      enable p in_fd w
        = enable_write p (p @ ''.new'') in_fd (snd (c_unlink (p @ ''.new'') (snd (c_malloc w))))) \<and>
   (fs w2 tmp \<noteq> None \<longrightarrow>
      enable_write p tmp in_fd w2
        = (False, perror ''Unable to open temporary file for writing'' (w2\<lparr>errno := EEXIST\<rparr>)))"
proof (intro conjI impI)
  assume a: "parse_opts cfg (argv0 iv) (opts iv) CMD_NULL [] w = Inr (CMD_ENABLE, g, w0) \<and>
    optind iv = argc iv \<and> get_user w = Some username \<and>
    \<not> fst (status (GAUTH_STATEDIR cfg @ ''/'' @ username) w) \<and> fst (main cfg iv w) = 0"
  then have m: "umask (snd (main cfg iv w)) = 63 \<and>
      fs (snd (main cfg iv w)) (GAUTH_STATEDIR cfg @ ''/'' @ username @ ''.new'') = None \<and>
      (\<exists>bs. fs (snd (main cfg iv w)) (GAUTH_STATEDIR cfg @ ''/'' @ username)
             = Some \<lparr>i_kind = Reg, i_data = bs, i_mode = 384, i_owner = euid w\<rparr>)"
    using main_enable_0600 [of cfg iv w g w0 username] by blast
  from m show "umask (snd (main cfg iv w)) = 63"
    by blast
  from m show "fs (snd (main cfg iv w)) (GAUTH_STATEDIR cfg @ ''/'' @ username @ ''.new'') = None"
    by blast
  from m show "\<exists>bs. fs (snd (main cfg iv w)) (GAUTH_STATEDIR cfg @ ''/'' @ username)
             = Some \<lparr>i_kind = Reg, i_data = bs, i_mode = 384, i_owner = euid w\<rparr>"
    by blast
next
  assume a: "fst (c_malloc w) \<and> \<not> pre_unlink_failed p (snd (c_malloc w))"
  obtain w1 where m: "c_malloc w = (True, w1)"
    using a by (cases "c_malloc w") auto
  obtain ret w2' where u: "c_unlink (p @ ''.new'') w1 = (ret, w2')"
    by (metis prod.exhaust)
  from a m u have "\<not> (ret \<noteq> 0 \<and> errno w2' \<noteq> ENOENT)"
    by (simp add: pre_unlink_failed_def)
  with m u show "enable p in_fd w
        = enable_write p (p @ ''.new'') in_fd (snd (c_unlink (p @ ''.new'') (snd (c_malloc w))))"
    by (auto simp: enable_from_open)
next
  assume "fs w2 tmp \<noteq> None"
  then show "enable_write p tmp in_fd w2
        = (False, perror ''Unable to open temporary file for writing'' (w2\<lparr>errno := EEXIST\<rparr>))"
    by (auto simp: enable_write_def c_open_creat_excl_def)
qed

theorem enable_mode_0600_witness:
  "umask world_s1 = 511 \<and>
   fst (main cfg0 (cmdline 2 [(CHR ''e'', [])] False) world_s1) = 0 \<and>
   umask (snd (main cfg0 (cmdline 2 [(CHR ''e'', [])] False) world_s1)) = 63 \<and>
   map_option i_mode (fs (snd (main cfg0 (cmdline 2 [(CHR ''e'', [])] False) world_s1))
                        ''/var/lib/gauth/alice'') = Some 384 \<and>
   fs world_race (alice_path @ ''.new'') = Some (reg_file [88]) \<and>
   \<not> fst (enable_write alice_path (alice_path @ ''.new'') 3 world_race) \<and>
   fs (snd (enable_write alice_path (alice_path @ ''.new'') 3 world_race)) = fs world_race \<and>
   fd3 (snd (enable_write alice_path (alice_path @ ''.new'') 3 world_race)) = fd3 world_race \<and>
   enable alice_path 3 world_s1
     = enable_write alice_path (alice_path @ ''.new'') 3
         (snd (c_unlink (alice_path @ ''.new'') (snd (c_malloc world_s1))))"
proof -
  have p: "parse_opts cfg0 (argv0 (cmdline 2 [(CHR ''e'', [])] False))
             (opts (cmdline 2 [(CHR ''e'', [])] False)) CMD_NULL [] world_s1
           = Inr (CMD_ENABLE, [], world_s1)"
    by (simp add: cmdline_def)
  have o: "optind (cmdline 2 [(CHR ''e'', [])] False) = argc (cmdline 2 [(CHR ''e'', [])] False)"
    by (simp add: cmdline_def)
  have u: "get_user world_s1 = Some ''alice''"
    by (simp add: get_user_def world_s1_def world0_def)
  have ns: "\<not> fst (status (GAUTH_STATEDIR cfg0 @ ''/'' @ ''alice'') world_s1)"
    by (simp add: status_iff world_s1_def world0_def)
  have ok: "fst (main cfg0 (cmdline 2 [(CHR ''e'', [])] False) world_s1) = 0"
    by (simp add: eval_defs)
  have s: "GAUTH_STATEDIR cfg0 @ ''/'' @ ''alice'' = ''/var/lib/gauth/alice''"
    by (simp add: cfg0_def)
  have m: "umask world_s1 = 511"
    by (simp add: world_s1_def)
  have r: "fs world_race (alice_path @ ''.new'') = Some (reg_file [88])"
    by (simp add: world_race_def)
  have q: "fst (c_malloc world_s1)" "\<not> pre_unlink_failed alice_path (snd (c_malloc world_s1))"
    by (simp_all add: pre_unlink_failed_def eval_defs)
  note t = enable_mode_0600 [where cfg = cfg0 and iv = "cmdline 2 [(CHR ''e'', [])] False"
      and w = world_s1 and g = "[]" and ?w0.0 = world_s1 and username = "''alice''"
      and p = alice_path and in_fd = 3 and ?w2.0 = world_race and tmp = "alice_path @ ''.new''"]
  have a: "umask (snd (main cfg0 (cmdline 2 [(CHR ''e'', [])] False) world_s1)) = 63 \<and>
      fs (snd (main cfg0 (cmdline 2 [(CHR ''e'', [])] False) world_s1))
         (GAUTH_STATEDIR cfg0 @ ''/'' @ ''alice'' @ ''.new'') = None \<and>
      (\<exists>bs. fs (snd (main cfg0 (cmdline 2 [(CHR ''e'', [])] False) world_s1))
              (GAUTH_STATEDIR cfg0 @ ''/'' @ ''alice'')
             = Some \<lparr>i_kind = Reg, i_data = bs, i_mode = 384, i_owner = euid world_s1\<rparr>)"
    by (rule t [THEN conjunct1, THEN mp]) (intro conjI p o u ns ok)
  have c: "enable alice_path 3 world_s1
     = enable_write alice_path (alice_path @ ''.new'') 3
         (snd (c_unlink (alice_path @ ''.new'') (snd (c_malloc world_s1))))"
    by (rule t [THEN conjunct2, THEN conjunct1, THEN mp]) (intro conjI q)
  have b: "enable_write alice_path (alice_path @ ''.new'') 3 world_race
      = (False, perror ''Unable to open temporary file for writing'' (world_race\<lparr>errno := EEXIST\<rparr>))"
    by (rule t [THEN conjunct2, THEN conjunct2, THEN mp]) (simp add: r)
  from a have a': "umask (snd (main cfg0 (cmdline 2 [(CHR ''e'', [])] False) world_s1)) = 63"
    "map_option i_mode (fs (snd (main cfg0 (cmdline 2 [(CHR ''e'', [])] False) world_s1))
                        ''/var/lib/gauth/alice'') = Some 384"
    by (auto simp: cfg0_def)
  have b': "\<not> fst (enable_write alice_path (alice_path @ ''.new'') 3 world_race)"
    "fs (snd (enable_write alice_path (alice_path @ ''.new'') 3 world_race)) = fs world_race"
    "fd3 (snd (enable_write alice_path (alice_path @ ''.new'') 3 world_race)) = fd3 world_race"
    by (simp_all add: b perror_def)
  from a' m ok r b' c show ?thesis
    by blast
qed

subsection \<open>A failed \<open>enable\<close>\<close>

text \<open>
  Claim C1, as amended. When \<open>enable\<close> fails, the state file is as it was, and so is
  every file other than the temporary one. The temporary file is gone, except when the
  failure is the first \<^verbatim>\<open>unlink\<close> of the temporary file itself (or the allocation
  of its name): then \<open>enable\<close> returns at once and the file system is untouched, so
  a temporary file that could not be removed is still there.
\<close>

theorem enable_failure_cleanup:
  assumes "enable p in_fd w = (False, w')"
  shows "fs w' p = fs w p \<and> (\<forall>q. q \<noteq> p @ ''.new'' \<longrightarrow> fs w' q = fs w q) \<and>
         (if \<not> fst (c_malloc w) \<or> pre_unlink_failed p w then fs w' = fs w
          else fs w' (p @ ''.new'') = None)"
proof -
  note s = enable_spec [OF assms]
  from s have a: "fs w' p = fs w p" and b: "\<forall>q. q \<noteq> p \<and> q \<noteq> p @ ''.new'' \<longrightarrow> fs w' q = fs w q"
    and c: "if \<not> fst (c_malloc w) \<or> pre_unlink_failed p w then fs w' = fs w
          else fs w' (p @ ''.new'') = None"
    by simp_all
  from a b have "\<forall>q. q \<noteq> p @ ''.new'' \<longrightarrow> fs w' q = fs w q"
    by metis
  with a c show ?thesis
    by blast
qed

theorem enable_failure_cleanup_witness:
  "\<not> fst (enable alice_path 3 world_rderr) \<and>
   fs (snd (enable alice_path 3 world_rderr)) alice_path = fs world_rderr alice_path \<and>
   fs (snd (enable alice_path 3 world_rderr)) (alice_path @ ''.new'') = None"
proof -
  have f: "\<not> fst (enable alice_path 3 world_rderr)"
    by (simp add: eval_defs)
  then have e: "enable alice_path 3 world_rderr = (False, snd (enable alice_path 3 world_rderr))"
    by (simp add: prod_eq_iff)
  have c: "fst (c_malloc world_rderr)" "\<not> pre_unlink_failed alice_path world_rderr"
    by (simp_all add: pre_unlink_failed_def eval_defs)
  from enable_failure_cleanup [OF e] c f show ?thesis
    by simp
qed

text \<open>
  The claim as stated fails where the temporary path is a directory: the first
  \<^verbatim>\<open>unlink\<close> fails with EISDIR, \<open>enable\<close> returns false, and the path still exists.
\<close>

theorem enable_pre_unlink_counterexample:
  "\<not> fst (enable alice_path 3 world_tmpdir) \<and>
   pre_unlink_failed alice_path world_tmpdir \<and>
   map_option i_kind (fs (snd (enable alice_path 3 world_tmpdir)) (alice_path @ ''.new'')) = Some Dir"
  by (simp add: pre_unlink_failed_def eval_defs)

subsection \<open>The payload of a successful \<open>enable\<close>\<close>

text \<open>
  After a successful \<open>enable\<close> the state file holds the bytes delivered on descriptor 3,
  as far as the device had room for them (\<open>enable_spec\<close>); all of them when it had room
  for all.
\<close>

lemma enable_payload:
  assumes "enable p in_fd w = (True, w')" and "length (payload (fd3 w)) \<le> space w"
  shows "map_option i_data (fs w' p) = Some (payload (fd3 w))"
  using enable_spec [OF assms(1)] assms(2) by simp

text \<open>
  Claim C2. After every successful \<open>enable\<close> the state file holds exactly the payload.
  The code tests the result of \<^verbatim>\<open>write\<close> for -1 only and never writes the rest of
  a short write: where the last \<^verbatim>\<open>write\<close> is short, \<open>enable\<close> succeeds with a
  truncated state file. Here descriptor 3 delivers the two bytes 65, 66 and the device
  has room for one.
\<close>

theorem enable_short_write_truncates:
  "payload (fd3 world_short) = [65, 66] \<and> fst (enable alice_path 3 world_short) \<and>
   map_option i_data (fs (snd (enable alice_path 3 world_short)) alice_path) = Some [65]"
  by (simp add: eval_defs)

subsection \<open>Usernames\<close>

lemma disable_fs:
  "disable (Some p) w = (r, w') \<Longrightarrow>
     r = (\<not> (\<exists>f. fs w p = Some f \<and> (\<not> dir_writable w \<or> i_kind f = Dir))) \<and>
     fs w' = (if r then (fs w)(p := None) else fs w) \<and> fd3 w' = fd3 w"
  by (auto simp: disable_def c_unlink_def fputs_stderr_def perror_def fun_upd_idem
           split: option.splits if_splits)

text \<open>
  Claim C3, as amended. No username is rejected. \<open>get_state_path\<close> fails only when
  \<^verbatim>\<open>malloc\<close> does; otherwise it returns the state directory, a slash and the username,
  whatever the username contains. (A NUL byte cannot occur in a C string, so the only
  character in question is the slash.) And \<^verbatim>\<open>--disable username\<close> run by root does to
  the files exactly what \<open>disable\<close> does on that path.
\<close>

theorem no_username_validation:
  "fst (get_state_path cfg username w)
     = (if fst (c_malloc w) then Some (GAUTH_STATEDIR cfg @ ''/'' @ username) else None) \<and>
   (parse_opts cfg (argv0 iv) (opts iv) CMD_NULL [] w = Inr (CMD_DISABLE, username, w0) \<and>
    optind iv = argc iv \<and> ruid w = 0 \<and> get_user w = Some name \<and> mallocs w = [] \<longrightarrow>
      fst (main cfg iv w)
        = exit_status (fst (disable (Some (GAUTH_STATEDIR cfg @ ''/'' @ username)) w)) \<and>
      fs (snd (main cfg iv w))
        = fs (snd (disable (Some (GAUTH_STATEDIR cfg @ ''/'' @ username)) w)))"
proof -
  define p where "p = GAUTH_STATEDIR cfg @ ''/'' @ username"
  have g1: "fst (get_state_path cfg username w) = (if fst (c_malloc w) then Some p else None)"
    using get_state_path_frame [of cfg username w "fst (get_state_path cfg username w)"
        "snd (get_state_path cfg username w)"]
    by (simp add: p_def)
  have g2: "fst (main cfg iv w) = exit_status (fst (disable (Some p) w)) \<and>
            fs (snd (main cfg iv w)) = fs (snd (disable (Some p) w))"
    if a1: "parse_opts cfg (argv0 iv) (opts iv) CMD_NULL [] w = Inr (CMD_DISABLE, username, w0)"
      and a2: "optind iv = argc iv" and a3: "ruid w = 0" and a4: "get_user w = Some name"
      and a5: "mallocs w = []"
  proof -
    from a5 have m: "fst (c_malloc w)"
      by (simp add: c_malloc_def)
    have ne: "CMD_DISABLE \<noteq> CMD_NULL"
      by simp
    from main_dispatch [OF a1 ne a2 a4 m refl]
    obtain w2 where w2: "same_files w (w2\<lparr>mallocs := mallocs w\<rparr>)" "mallocs w2 = tl (mallocs w)"
      and mn: "main cfg iv w =
                (if ruid w2 = 0 then
                   (case get_state_path cfg username w2 of (state_path', w3) \<Rightarrow>
                      (case disable state_path' w3 of (ret, w4) \<Rightarrow> (exit_status ret, w4)))
                 else
                   (exit_status (ret_init iv),
                    fputs_stderr (''Error: Only root is allowed to disable 2FA for user ''
                                  @ username @ ''.\<newline>'') w2))"
      by blast
    from w2(1) a3 have r0: "ruid w2 = 0" and f2: "fs w2 = fs w" "dir_writable w2 = dir_writable w"
      by (simp_all add: same_files_def)
    obtain r w3 where g: "get_state_path cfg username w2 = (r, w3)"
      by (metis prod.exhaust)
    from a5 w2(2) have "fst (c_malloc w2)"
      by (simp add: c_malloc_def)
    with get_state_path_frame [OF g] have r: "r = Some p" and f3: "fs w3 = fs w2"
      "dir_writable w3 = dir_writable w2"
      by (simp_all add: p_def)
    obtain d w4 where d: "disable (Some p) w3 = (d, w4)"
      by (metis prod.exhaust)
    obtain d' w4' where d': "disable (Some p) w = (d', w4')"
      by (metis prod.exhaust)
    have e3: "fs w3 = fs w" "dir_writable w3 = dir_writable w"
      using f3 f2 by simp_all
    from disable_fs [OF d] have "d = (\<not> (\<exists>f. fs w p = Some f \<and> (\<not> dir_writable w \<or> i_kind f = Dir)))"
      unfolding e3 by blast
    moreover from disable_fs [OF d'] have "d' = (\<not> (\<exists>f. fs w p = Some f \<and> (\<not> dir_writable w \<or> i_kind f = Dir)))"
      by blast
    ultimately have d1: "d = d'"
      by blast
    from disable_fs [OF d] have "fs w4 = (if d then (fs w)(p := None) else fs w)"
      unfolding e3 by blast
    moreover from disable_fs [OF d'] have "fs w4' = (if d' then (fs w)(p := None) else fs w)"
      by blast
    ultimately have dd: "d = d'" "fs w4 = fs w4'"
      using d1 by simp_all
    from mn r0 g r d have "main cfg iv w = (exit_status d, w4)"
      by simp
    with dd d' show ?thesis
      by simp
  qed
  from g1 g2 show ?thesis
    unfolding p_def by blast
qed

theorem no_username_validation_witness:
  "fst (get_state_path cfg0 ''bob/../alice'' world_root) = Some ''/var/lib/gauth/bob/../alice'' \<and>
   fst (main cfg0 (cmdline 3 [(CHR ''d'', ''bob/../alice'')] False) world_root) = 0 \<and>
   fs (snd (main cfg0 (cmdline 3 [(CHR ''d'', ''bob/../alice'')] False) world_root))
      ''/var/lib/gauth/bob/../alice'' = None"
proof -
  have h: "parse_opts cfg0 (argv0 (cmdline 3 [(CHR ''d'', ''bob/../alice'')] False))
             (opts (cmdline 3 [(CHR ''d'', ''bob/../alice'')] False)) CMD_NULL [] world_root
           = Inr (CMD_DISABLE, ''bob/../alice'', world_root) \<and>
           optind (cmdline 3 [(CHR ''d'', ''bob/../alice'')] False)
             = argc (cmdline 3 [(CHR ''d'', ''bob/../alice'')] False) \<and>
           ruid world_root = 0 \<and> get_user world_root = Some ''root'' \<and> mallocs world_root = []"
    by (simp add: cmdline_def world_root_def world0_def get_user_def)
  have d: "fst (disable (Some ''/var/lib/gauth/bob/../alice'') world_root)"
    "fs (snd (disable (Some ''/var/lib/gauth/bob/../alice'') world_root)) ''/var/lib/gauth/bob/../alice'' = None"
    "fst (c_malloc world_root)"
    by (simp_all add: eval_defs)
  have s: "GAUTH_STATEDIR cfg0 @ ''/'' @ ''bob/../alice'' = ''/var/lib/gauth/bob/../alice''"
    by (simp add: cfg0_def)
  note t = no_username_validation [of cfg0 "''bob/../alice''" world_root
      "cmdline 3 [(CHR ''d'', ''bob/../alice'')] False" world_root "''root''", unfolded s]
  from t d(3) have "fst (get_state_path cfg0 ''bob/../alice'' world_root) = Some ''/var/lib/gauth/bob/../alice''"
    by simp
  moreover from t h have "fst (main cfg0 (cmdline 3 [(CHR ''d'', ''bob/../alice'')] False) world_root)
        = exit_status (fst (disable (Some ''/var/lib/gauth/bob/../alice'') world_root)) \<and>
      fs (snd (main cfg0 (cmdline 3 [(CHR ''d'', ''bob/../alice'')] False) world_root))
        = fs (snd (disable (Some ''/var/lib/gauth/bob/../alice'') world_root))"
    by blast
  ultimately show ?thesis
    using d(1,2) by (simp add: exit_status_def)
qed

text \<open>
  The claim as stated fails for the username \<^verbatim>\<open>../../etc/passwd\<close>: the path builder
  returns a path that leaves the state directory, and \<^verbatim>\<open>--disable\<close> run by root removes
  the file there and exits with status 0.
\<close>

theorem username_with_slash_counterexample:
  "fst (get_state_path cfg0 ''../../etc/passwd'' world_root) = Some ''/var/lib/gauth/../../etc/passwd'' \<and>
   fs world_root ''/var/lib/gauth/../../etc/passwd'' = Some (reg_file [114, 111, 111, 116]) \<and>
   fst (main cfg0 (cmdline 3 [(CHR ''d'', ''../../etc/passwd'')] False) world_root) = 0 \<and>
   fs (snd (main cfg0 (cmdline 3 [(CHR ''d'', ''../../etc/passwd'')] False) world_root))
      ''/var/lib/gauth/../../etc/passwd'' = None"
  by (simp add: eval_defs)

subsection \<open>\<^verbatim>\<open>--enable\<close> when the state file exists\<close>

text \<open>
  When the state file can be opened, \<open>main\<close> prints an error, does not call \<open>enable\<close>,
  and leaves the files and descriptor 3 alone. It does not assign \<open>ret\<close> on this
  path, so the exit status is made from the value \<open>ret\<close> happens to hold.
\<close>

lemma status_cong:
  "fs w' = fs w \<Longrightarrow> euid w' = euid w \<Longrightarrow> fst (status p w') = fst (status p w)"
  by (simp add: status_iff)

lemma main_enable_conflict:
  assumes p: "parse_opts cfg (argv0 iv) (opts iv) CMD_NULL [] w = Inr (CMD_ENABLE, g, w0)"
    and o: "optind iv = argc iv" and u: "get_user w = Some username" and m: "fst (c_malloc w)"
    and st: "fst (status (GAUTH_STATEDIR cfg @ ''/'' @ username) w)"
  shows "fst (main cfg iv w) = exit_status (ret_init iv) \<and>
         fs (snd (main cfg iv w)) = fs w \<and> fd3 (snd (main cfg iv w)) = fd3 w"
proof -
  define sp where "sp = GAUTH_STATEDIR cfg @ ''/'' @ username"
  have ne: "CMD_ENABLE \<noteq> CMD_NULL"
    by simp
  from main_dispatch [OF p ne o u m sp_def] obtain w2 where
    w2: "same_files w (w2\<lparr>mallocs := mallocs w\<rparr>)" and
    mn: "main cfg iv w =
           (case status sp w2 of
              (False, w3) \<Rightarrow> (case enable sp 3 w3 of (ret, w4) \<Rightarrow> (exit_status ret, w4))
            | (True, w3) \<Rightarrow>
                (exit_status (ret_init iv),
                 fputs_stderr (''Error: 2FA configuration exists for user ''
                               @ username @ ''.\<newline>'') w3))"
    by blast
  from w2 have f2: "fs w2 = fs w" "euid w2 = euid w" "fd3 w2 = fd3 w"
    by (simp_all add: same_files_def)
  obtain b w3 where s3: "status sp w2 = (b, w3)"
    by (metis prod.exhaust)
  have "b = fst (status sp w)"
    using status_cong [OF f2(1,2), of sp] s3 by simp
  with st have b: "b"
    by (simp add: sp_def)
  from status_frame [OF s3] f2 have f3: "fs w3 = fs w" "fd3 w3 = fd3 w"
    by (simp_all add: same_files_def)
  from mn s3 b f3 show ?thesis
    by (simp add: fputs_stderr_def)
qed

text \<open>
  Claim C4. \<^verbatim>\<open>--enable\<close> with an existing state file exits with status 1. The code
  exits with the status made from the uninitialised \<open>ret\<close>: 0 when it holds true.
\<close>

theorem enable_conflict_exit_status:
  "fst (status alice_path world_enabled) \<and>
   fst (main cfg0 (cmdline 2 [(CHR ''e'', [])] True) world_enabled) = 0 \<and>
   fst (main cfg0 (cmdline 2 [(CHR ''e'', [])] False) world_enabled) = 1"
  by (simp add: eval_defs)

subsection \<open>\<^verbatim>\<open>--disable\<close> by a user other than root\<close>

text \<open>
  When the real user is not root, \<open>main\<close> prints an error, does not call \<open>disable\<close>
  and leaves the files alone. It does not assign \<open>ret\<close> on this path either.
\<close>

lemma main_disable_not_root:
  assumes p: "parse_opts cfg (argv0 iv) (opts iv) CMD_NULL [] w = Inr (CMD_DISABLE, g, w0)"
    and o: "optind iv = argc iv" and u: "get_user w = Some username" and m: "fst (c_malloc w)"
    and nr: "ruid w \<noteq> 0"
  shows "fst (main cfg iv w) = exit_status (ret_init iv) \<and>
         fs (snd (main cfg iv w)) = fs w \<and> fd3 (snd (main cfg iv w)) = fd3 w"
proof -
  have ne: "CMD_DISABLE \<noteq> CMD_NULL"
    by simp
  from main_dispatch [OF p ne o u m refl] obtain w2 where
    w2: "same_files w (w2\<lparr>mallocs := mallocs w\<rparr>)" and
    mn: "main cfg iv w =
              (if ruid w2 = 0 then
                 (case get_state_path cfg g w2 of (state_path', w3) \<Rightarrow>
                    (case disable state_path' w3 of (ret, w4) \<Rightarrow> (exit_status ret, w4)))
               else
                 (exit_status (ret_init iv),
                  fputs_stderr (''Error: Only root is allowed to disable 2FA for user ''
                                @ g @ ''.\<newline>'') w2))"
    by blast
  from w2 nr have f2: "fs w2 = fs w" "ruid w2 \<noteq> 0" "fd3 w2 = fd3 w"
    by (simp_all add: same_files_def)
  with mn show ?thesis
    by (simp add: fputs_stderr_def)
qed

text \<open>
  Claim C5. \<^verbatim>\<open>--disable alice\<close> run by a user other than root exits with status 1.
  The code exits with the status made from the uninitialised \<open>ret\<close>: 0 when it holds
  true.
\<close>

theorem disable_not_root_exit_status:
  "ruid world_enabled = 1000 \<and>
   fst (main cfg0 (cmdline 3 [(CHR ''d'', ''alice'')] True) world_enabled) = 0 \<and>
   fst (main cfg0 (cmdline 3 [(CHR ''d'', ''alice'')] False) world_enabled) = 1"
  by (simp add: eval_defs)

subsection \<open>The presence query\<close>

text \<open>
  Claim C7, as amended. \<open>status\<close> returns true if and only if the state path can be
  opened for reading: something is there, a regular file or not, that the process may
  read. It changes no file. \<^verbatim>\<open>--status\<close> changes no file and does not read descriptor
  3, and it exits with status 0 when \<open>status\<close> is true of the invoking user's state
  path and with status 1 when it is false.
\<close>

theorem status_openable:
  "(fst (status p w) \<longleftrightarrow> (\<exists>f. fs w p = Some f \<and> may_read (euid w) f)) \<and>
   fs (snd (status p w)) = fs w \<and>
   (parse_opts cfg (argv0 iv) (opts iv) CMD_NULL [] w = Inr (CMD_STATUS, g, w0) \<and>
    optind iv = argc iv \<longrightarrow>
      fs (snd (main cfg iv w)) = fs w \<and> fd3 (snd (main cfg iv w)) = fd3 w \<and>
      (get_user w = Some u \<and> fst (c_malloc w) \<longrightarrow>
         fst (main cfg iv w)
           = (if fst (status (GAUTH_STATEDIR cfg @ ''/'' @ u) w) then 0 else 1)))"
proof -
  have a: "fst (status p w) \<longleftrightarrow> (\<exists>f. fs w p = Some f \<and> may_read (euid w) f)"
    by (rule status_iff)
  have b: "fs (snd (status p w)) = fs w"
    using status_frame [of p w "fst (status p w)" "snd (status p w)"]
    by (simp add: same_files_def)
  have c: "fs (snd (main cfg iv w)) = fs w \<and> fd3 (snd (main cfg iv w)) = fd3 w \<and>
      (get_user w = Some u \<and> fst (c_malloc w) \<longrightarrow>
         fst (main cfg iv w)
           = (if fst (status (GAUTH_STATEDIR cfg @ ''/'' @ u) w) then 0 else 1))"
    if "parse_opts cfg (argv0 iv) (opts iv) CMD_NULL [] w = Inr (CMD_STATUS, g, w0)"
      and "optind iv = argc iv"
    using main_status [OF that, of u] by (simp add: exit_status_def)
  from a b c show ?thesis
    by blast
qed

theorem status_openable_witness:
  "fst (status alice_path world_enabled) \<and> \<not> fst (status alice_path world0) \<and>
   fst (main cfg0 (cmdline 2 [(CHR ''s'', [])] False) world_enabled) = 0 \<and>
   fst (main cfg0 (cmdline 2 [(CHR ''s'', [])] False) world0) = 1 \<and>
   fs (snd (main cfg0 (cmdline 2 [(CHR ''s'', [])] False) world_enabled)) = fs world_enabled"
proof -
  have s: "GAUTH_STATEDIR cfg0 @ ''/'' @ ''alice'' = alice_path"
    by (simp add: cfg0_def alice_path_def)
  have r: "(\<exists>f. fs world_enabled alice_path = Some f \<and> may_read (euid world_enabled) f)"
    "\<not> (\<exists>f. fs world0 alice_path = Some f \<and> may_read (euid world0) f)"
    by (simp_all add: world_enabled_def world0_def reg_file_def may_read_def)
  have h1: "parse_opts cfg0 (argv0 (cmdline 2 [(CHR ''s'', [])] False))
              (opts (cmdline 2 [(CHR ''s'', [])] False)) CMD_NULL [] world_enabled
            = Inr (CMD_STATUS, [], world_enabled) \<and>
            optind (cmdline 2 [(CHR ''s'', [])] False) = argc (cmdline 2 [(CHR ''s'', [])] False)"
    and h0: "parse_opts cfg0 (argv0 (cmdline 2 [(CHR ''s'', [])] False))
              (opts (cmdline 2 [(CHR ''s'', [])] False)) CMD_NULL [] world0
            = Inr (CMD_STATUS, [], world0) \<and>
            optind (cmdline 2 [(CHR ''s'', [])] False) = argc (cmdline 2 [(CHR ''s'', [])] False)"
    by (simp_all add: cmdline_def)
  have u: "get_user world_enabled = Some ''alice'' \<and> fst (c_malloc world_enabled)"
    "get_user world0 = Some ''alice'' \<and> fst (c_malloc world0)"
    by (simp_all add: get_user_def c_malloc_def world_enabled_def world0_def)
  note t1 = status_openable [of alice_path world_enabled cfg0 "cmdline 2 [(CHR ''s'', [])] False"
      "[]" world_enabled "''alice''", unfolded s]
  note t0 = status_openable [of alice_path world0 cfg0 "cmdline 2 [(CHR ''s'', [])] False"
      "[]" world0 "''alice''", unfolded s]
  from t1 r(1) have a1: "fst (status alice_path world_enabled)"
    by blast
  from t0 r(2) have a0: "\<not> fst (status alice_path world0)"
    by blast
  from t1 h1 u(1) a1 have b1: "fst (main cfg0 (cmdline 2 [(CHR ''s'', [])] False) world_enabled) = 0"
    "fs (snd (main cfg0 (cmdline 2 [(CHR ''s'', [])] False) world_enabled)) = fs world_enabled"
    by simp_all
  from t0 h0 u(2) a0 have b0: "fst (main cfg0 (cmdline 2 [(CHR ''s'', [])] False) world0) = 1"
    by simp
  from a1 a0 b1 b0 show ?thesis
    by simp
qed

text \<open>
  The claim as stated fails where the state path is a directory: no regular file exists
  there, and \<open>status\<close> is true and \<^verbatim>\<open>--status\<close> exits with status 0.
\<close>

theorem status_directory_counterexample:
  "map_option i_kind (fs world_dir alice_path) = Some Dir \<and>
   fst (status alice_path world_dir) \<and>
   fst (main cfg0 (cmdline 2 [(CHR ''s'', [])] False) world_dir) = 0"
  by (simp add: eval_defs)

subsection \<open>Usage errors\<close>

lemma parse_opts_no_help:
  "\<forall>x\<in>set os. fst x \<notin> {CHR ''h'', CHR ''V''} \<Longrightarrow>
   \<exists>w0. same_files w w0 \<and>
     (parse_opts cfg prog os cmd g w = Inl (usage prog False w0) \<or>
      (\<exists>cmd' g'. parse_opts cfg prog os cmd g w = Inr (cmd', g', w0) \<and>
         ((\<forall>x\<in>set os. fst x \<notin> {CHR ''e'', CHR ''d'', CHR ''s''}) \<longrightarrow> cmd' = cmd)))"
proof (induction cfg prog os cmd g w rule: parse_opts.induct)
  case (1 cfg prog cmd givenuser w)
  show ?case
    by (rule exI [of _ w]) (simp add: same_files_def)
next
  case (2 cfg prog opt optarg rest cmd givenuser w)
  from "2.prems" have nh: "opt \<noteq> CHR ''h''" "opt \<noteq> CHR ''V''"
    and rest: "\<forall>x\<in>set rest. fst x \<notin> {CHR ''h'', CHR ''V''}"
    by simp_all
  consider (e) "opt = CHR ''e''" | (d) "opt = CHR ''d''" | (s) "opt = CHR ''s''"
    | (c) "opt = CHR '':''" | (o) "opt \<notin> {CHR ''e'', CHR ''d'', CHR ''s'', CHR '':''}"
    by blast
  then show ?case
  proof cases
    case e
    from "2.IH"(1) [OF e rest] obtain w0 where "same_files w w0"
      "parse_opts cfg prog rest CMD_ENABLE givenuser w = Inl (usage prog False w0) \<or>
       (\<exists>cmd' g'. parse_opts cfg prog rest CMD_ENABLE givenuser w = Inr (cmd', g', w0))"
      by blast
    with e show ?thesis
      by (intro exI [of _ w0]) auto
  next
    case d
    then have ne: "opt \<noteq> CHR ''e''"
      by simp
    from "2.IH"(2) [OF ne d rest] obtain w0 where "same_files w w0"
      "parse_opts cfg prog rest CMD_DISABLE optarg w = Inl (usage prog False w0) \<or>
       (\<exists>cmd' g'. parse_opts cfg prog rest CMD_DISABLE optarg w = Inr (cmd', g', w0))"
      by blast
    with d show ?thesis
      by (intro exI [of _ w0]) auto
  next
    case s
    then have ne: "opt \<noteq> CHR ''e''" "opt \<noteq> CHR ''d''"
      by simp_all
    from "2.IH"(3) [OF ne s rest] obtain w0 where "same_files w w0"
      "parse_opts cfg prog rest CMD_STATUS givenuser w = Inl (usage prog False w0) \<or>
       (\<exists>cmd' g'. parse_opts cfg prog rest CMD_STATUS givenuser w = Inr (cmd', g', w0))"
      by blast
    with s show ?thesis
      by (intro exI [of _ w0]) auto
  next
    case c
    define w1 where "w1 = fputs_stderr ''missing argument.\<newline>'' w"
    from c have ne: "opt \<noteq> CHR ''e''" "opt \<noteq> CHR ''d''" "opt \<noteq> CHR ''s''"
      by simp_all
    from "2.IH"(4) [OF ne nh c rest] obtain w0 where w0: "same_files w1 w0"
      "parse_opts cfg prog rest cmd givenuser w1 = Inl (usage prog False w0) \<or>
       (\<exists>cmd' g'. parse_opts cfg prog rest cmd givenuser w1 = Inr (cmd', g', w0) \<and>
         ((\<forall>x\<in>set rest. fst x \<notin> {CHR ''e'', CHR ''d'', CHR ''s''}) \<longrightarrow> cmd' = cmd))"
      unfolding w1_def by blast
    have "same_files w w1"
      by (simp add: w1_def fputs_stderr_def same_files_def)
    with w0(1) have sf: "same_files w w0"
      by (simp add: same_files_def)
    from c have eq: "parse_opts cfg prog ((opt, optarg) # rest) cmd givenuser w
        = parse_opts cfg prog rest cmd givenuser w1"
      by (simp add: w1_def)
    from sf w0(2) show ?thesis
      unfolding eq by (intro exI [of _ w0]) auto
  next
    case o
    with nh have "parse_opts cfg prog ((opt, optarg) # rest) cmd givenuser w
        = Inl (usage prog False w)"
      by simp
    then show ?thesis
      by (intro exI [of _ w]) (simp add: same_files_def)
  qed
qed

text \<open>
  When the command line has neither \<^verbatim>\<open>-h\<close> nor \<^verbatim>\<open>-V\<close>, and it has no action option
  or a non-option argument is left over, the program prints the usage message to
  standard error and exits with status 1, and it changes no file and reads nothing.
\<close>

lemma main_usage_error:
  assumes nh: "\<forall>x\<in>set (opts iv). fst x \<notin> {CHR ''h'', CHR ''V''}"
    and bad: "(\<forall>x\<in>set (opts iv). fst x \<notin> {CHR ''e'', CHR ''d'', CHR ''s''}) \<or> optind iv \<noteq> argc iv"
  shows "fst (main cfg iv w) = 1 \<and> same_files w (snd (main cfg iv w)) \<and>
         (\<exists>w0. main cfg iv w = usage (argv0 iv) False w0)"
proof -
  from parse_opts_no_help [OF nh, of w cfg "argv0 iv" CMD_NULL "[]"] obtain w0 where
    sf: "same_files w w0" and
    po: "parse_opts cfg (argv0 iv) (opts iv) CMD_NULL [] w = Inl (usage (argv0 iv) False w0) \<or>
      (\<exists>cmd' g'. parse_opts cfg (argv0 iv) (opts iv) CMD_NULL [] w = Inr (cmd', g', w0) \<and>
         ((\<forall>x\<in>set (opts iv). fst x \<notin> {CHR ''e'', CHR ''d'', CHR ''s''}) \<longrightarrow> cmd' = CMD_NULL))"
    by blast
  have mu: "main cfg iv w = usage (argv0 iv) False w0"
  proof (cases "parse_opts cfg (argv0 iv) (opts iv) CMD_NULL [] w = Inl (usage (argv0 iv) False w0)")
    case True
    then show ?thesis
      by (simp add: main_def)
  next
    case False
    with po obtain cmd' g' where
      r: "parse_opts cfg (argv0 iv) (opts iv) CMD_NULL [] w = Inr (cmd', g', w0)"
      and n: "(\<forall>x\<in>set (opts iv). fst x \<notin> {CHR ''e'', CHR ''d'', CHR ''s''}) \<longrightarrow> cmd' = CMD_NULL"
      by blast
    from bad n have "cmd' = CMD_NULL \<or> optind iv \<noteq> argc iv"
      by blast
    with r show ?thesis
      by (auto simp: main_def)
  qed
  obtain c w' where uw: "usage (argv0 iv) False w0 = (c, w')"
    by (metis prod.exhaust)
  from usage_frame [OF uw] sf have cw: "c = 1" "same_files w w'"
    by (simp_all add: same_files_def)
  from mu have "\<exists>w0. main cfg iv w = usage (argv0 iv) False w0"
    by blast
  moreover from mu uw cw have "fst (main cfg iv w) = 1" "same_files w (snd (main cfg iv w))"
    by simp_all
  ultimately show ?thesis
    by blast
qed

text \<open>
  With action options only, the loop ends with the command of the last one, and with
  its argument when that is \<^verbatim>\<open>-d\<close>; the run is the run of that option alone.
\<close>

lemma parse_opts_last:
  assumes "\<forall>x\<in>set os. fst x \<in> {CHR ''e'', CHR ''d'', CHR ''s''}" and "os \<noteq> []"
  shows "\<exists>c g1 g2. parse_opts cfg prog os cmd g w = Inr (c, g1, w) \<and>
           parse_opts cfg prog [last os] cmd' g' w = Inr (c, g2, w) \<and>
           c \<noteq> CMD_NULL \<and> (c = CMD_DISABLE \<longrightarrow> g1 = g2)"
  using assms
proof (induction os arbitrary: cmd g)
  case Nil
  then show ?case by simp
next
  case (Cons x xs)
  obtain opt a where x: "x = (opt, a)"
    by (cases x)
  from Cons.prems x have o: "opt = CHR ''e'' \<or> opt = CHR ''d'' \<or> opt = CHR ''s''"
    by simp
  show ?case
  proof (cases "xs = []")
    case True
    with x o show ?thesis
      by auto
  next
    case False
    from Cons.prems have a: "\<forall>x\<in>set xs. fst x \<in> {CHR ''e'', CHR ''d'', CHR ''s''}"
      by simp
    from o obtain cmd1 g1 where
      s: "parse_opts cfg prog (x # xs) cmd g w = parse_opts cfg prog xs cmd1 g1 w"
      using x by auto
    from Cons.IH [OF a False, of cmd1 g1] False show ?thesis
      unfolding s by simp
  qed
qed

lemma main_cong:
  assumes "parse_opts cfg (argv0 iv) (opts iv) CMD_NULL [] w = Inr (c, g1, w0)"
    and "parse_opts cfg (argv0 iv') (opts iv') CMD_NULL [] w = Inr (c, g2, w0)"
    and "c = CMD_DISABLE \<longrightarrow> g1 = g2"
    and "argv0 iv' = argv0 iv" "optind iv' = optind iv" "argc iv' = argc iv"
        "ret_init iv' = ret_init iv"
  shows "main cfg iv' w = main cfg iv w"
  using assms
  by (cases c) (auto simp: main_def Let_def split: option.splits prod.splits bool.splits)

lemma main_last_action:
  assumes "\<forall>x\<in>set (opts iv). fst x \<in> {CHR ''e'', CHR ''d'', CHR ''s''}" and "opts iv \<noteq> []"
  shows "main cfg iv w = main cfg (iv\<lparr>opts := [last (opts iv)]\<rparr>) w"
proof -
  from parse_opts_last [OF assms, of cfg "argv0 iv" CMD_NULL "[]" w CMD_NULL "[]"]
  obtain c g1 g2 where
    p: "parse_opts cfg (argv0 iv) (opts iv) CMD_NULL [] w = Inr (c, g1, w)"
       "parse_opts cfg (argv0 iv) [last (opts iv)] CMD_NULL [] w = Inr (c, g2, w)"
       "c = CMD_DISABLE \<longrightarrow> g1 = g2"
    by blast
  show ?thesis
    by (rule main_cong [symmetric, OF p(1) _ p(3)]) (simp_all add: p(2))
qed

text \<open>
  Claim C10, as amended. In terms of what \<^verbatim>\<open>getopt_long\<close> reports: when it reports
  neither \<^verbatim>\<open>-h\<close> nor \<^verbatim>\<open>-V\<close>, and it reports no action option (\<^verbatim>\<open>-e\<close>, \<^verbatim>\<open>-d\<close>,
  \<^verbatim>\<open>-s\<close>) or leaves a non-option argument over, the program prints the usage message
  to standard error and exits with status 1, and it changes no file and reads nothing
  from descriptor 3. More than one action option is not an error: when action options
  are all it reports, the program does exactly what it does for the last of them alone.
\<close>

theorem usage_error_exit:
  "((\<forall>x\<in>set (opts iv). fst x \<notin> {CHR ''h'', CHR ''V''}) \<and>
    ((\<forall>x\<in>set (opts iv). fst x \<notin> {CHR ''e'', CHR ''d'', CHR ''s''}) \<or> optind iv \<noteq> argc iv) \<longrightarrow>
      fst (main cfg iv w) = 1 \<and> same_files w (snd (main cfg iv w)) \<and>
      (\<exists>w0. main cfg iv w = usage (argv0 iv) False w0)) \<and>
   ((\<forall>x\<in>set (opts iv). fst x \<in> {CHR ''e'', CHR ''d'', CHR ''s''}) \<and> opts iv \<noteq> [] \<longrightarrow>
      main cfg iv w = main cfg (iv\<lparr>opts := [last (opts iv)]\<rparr>) w)"
  using main_usage_error [of iv cfg w] main_last_action [of iv cfg w] by blast

theorem usage_error_exit_witness:
  "opts extra_arg = [(CHR ''e'', [])] \<and> optind extra_arg \<noteq> argc extra_arg \<and>
   fst (main cfg0 extra_arg world_enabled) = 1 \<and>
   fs (snd (main cfg0 extra_arg world_enabled)) = fs world_enabled \<and>
   fd3 (snd (main cfg0 extra_arg world_enabled)) = fd3 world_enabled \<and>
   main cfg0 (cmdline 3 [(CHR ''s'', []), (CHR ''e'', [])] False) world_enabled
     = main cfg0 (cmdline 3 [(CHR ''e'', [])] False) world_enabled"
proof -
  have h: "(\<forall>x\<in>set (opts extra_arg). fst x \<notin> {CHR ''h'', CHR ''V''}) \<and>
    ((\<forall>x\<in>set (opts extra_arg). fst x \<notin> {CHR ''e'', CHR ''d'', CHR ''s''}) \<or>
      optind extra_arg \<noteq> argc extra_arg)"
    by (simp add: extra_arg_def)
  have k: "(\<forall>x\<in>set (opts (cmdline 3 [(CHR ''s'', []), (CHR ''e'', [])] False)).
             fst x \<in> {CHR ''e'', CHR ''d'', CHR ''s''}) \<and>
           opts (cmdline 3 [(CHR ''s'', []), (CHR ''e'', [])] False) \<noteq> []"
    by (simp add: cmdline_def)
  have e: "(cmdline 3 [(CHR ''s'', []), (CHR ''e'', [])] False)
             \<lparr>opts := [last (opts (cmdline 3 [(CHR ''s'', []), (CHR ''e'', [])] False))]\<rparr>
           = cmdline 3 [(CHR ''e'', [])] False"
    by (simp add: cmdline_def)
  from usage_error_exit [of extra_arg cfg0 world_enabled] h
  have a: "fst (main cfg0 extra_arg world_enabled) = 1"
    "same_files world_enabled (snd (main cfg0 extra_arg world_enabled))"
    by blast+
  from usage_error_exit [of "cmdline 3 [(CHR ''s'', []), (CHR ''e'', [])] False" cfg0 world_enabled] k
  have b: "main cfg0 (cmdline 3 [(CHR ''s'', []), (CHR ''e'', [])] False) world_enabled
     = main cfg0 (cmdline 3 [(CHR ''e'', [])] False) world_enabled"
    unfolding e by blast
  from a b show ?thesis
    by (simp add: same_files_def extra_arg_def)
qed

text \<open>
  The claim as stated fails for more than one action option: the last one is carried
  out. \<^verbatim>\<open>--enable --status\<close> with the state file present prints no usage message and
  exits with status 0.
\<close>

theorem two_actions_counterexample:
  "fst (main cfg0 (cmdline 3 [(CHR ''e'', []), (CHR ''s'', [])] False) world_enabled) = 0 \<and>
   stderr (snd (main cfg0 (cmdline 3 [(CHR ''e'', []), (CHR ''s'', [])] False) world_enabled)) = []"
  by (simp add: eval_defs)

end
